theory Spec2Isabelle
  imports Main "HOL-Library.Word"
begin

unbundle bit_operations_syntax

section \<open>Text, bytes and the values of the host language\<close>

text \<open>
  A response body is read as chunks of bytes (\<open>Uint8Array\<close>). A string of the source
  is a sequence of UTF-16 code units: \<open>slice\<close>, \<open>split\<close>, \<open>startsWith\<close> and \<open>length\<close>
  all count code units.
\<close>

type_synonym byte = "8 word"
type_synonym jstring = "16 word list"

text \<open>A string literal of the source whose characters are all ASCII.\<close>

definition lit :: "string \<Rightarrow> jstring" where
  "lit s = map (\<lambda>c. of_nat (of_char c)) s"

text \<open>\<open>s.startsWith(p)\<close>.\<close>

definition startsWith :: "jstring \<Rightarrow> jstring \<Rightarrow> bool" where
  "startsWith s p = (take (length p) s = p)"

text \<open>\<open>s.slice(0, n)\<close> for a literal \<open>n \<ge> 0\<close>, and \<open>s.slice(n)\<close>.\<close>

definition slice0 :: "nat \<Rightarrow> jstring \<Rightarrow> jstring" where
  "slice0 n s = take n s"

definition slice_from :: "nat \<Rightarrow> jstring \<Rightarrow> jstring" where
  "slice_from n s = drop n s"

text \<open>
  \<open>s.split('\n')\<close>: the fragments between line feeds, in order; there is always at
  least one fragment, and the last one is what follows the last line feed.
\<close>

fun split_nl :: "jstring \<Rightarrow> jstring list" where
  "split_nl [] = [[]]"
| "split_nl (c # cs) =
     (if c = 0x0A then [] # split_nl cs
      else (case split_nl cs of l # ls \<Rightarrow> (c # l) # ls | [] \<Rightarrow> [[c]]))"

text \<open>
  \<open>s.trim()\<close> removes the white space and line terminators of ECMAScript from both ends.
\<close>

definition is_space :: "16 word \<Rightarrow> bool" where
  "is_space c =
     (c = 0x09 \<or> c = 0x0A \<or> c = 0x0B \<or> c = 0x0C \<or> c = 0x0D \<or> c = 0x20 \<or> c = 0xA0
      \<or> c = 0x1680 \<or> (0x2000 \<le> c \<and> c \<le> 0x200A) \<or> c = 0x2028 \<or> c = 0x2029
      \<or> c = 0x202F \<or> c = 0x205F \<or> c = 0x3000 \<or> c = 0xFEFF)"

definition trim :: "jstring \<Rightarrow> jstring" where
  "trim s = rev (dropWhile is_space (rev (dropWhile is_space s)))"

text \<open>Decimal rendering of a non-negative integer, as \<open>toString\<close> and template
  literals give it for the integers met here (time stamps, HTTP status codes).\<close>

fun digits :: "nat \<Rightarrow> jstring" where
  "digits n = (if n < 10 then [of_nat (48 + n)] else digits (n div 10) @ [of_nat (48 + n mod 10)])"

declare digits.simps [simp del]

definition show_int :: "int \<Rightarrow> jstring" where
  "show_int i = (if i < 0 then 0x2D # digits (nat (- i)) else digits (nat i))"

subsection \<open>Values returned by \<open>JSON.parse\<close>\<close>

text \<open>
  The values the source handles after \<open>JSON.parse\<close>, together with \<open>undefined\<close>, which
  property access produces. A number is carried by its \<open>ToString\<close> rendering: the
  source only tests a number for truthiness and appends it to a string, and the
  rendering decides both (\<open>0\<close> and \<open>-0\<close> render as \<open>0\<close>). An object is the list of its
  own properties; the first binding of a key is the property's value.
\<close>

datatype jsval =
    JUndefined
  | JNull
  | JBool bool
  | JNum jstring
  | JStr jstring
  | JArr "jsval list"
  | JObj "(jstring \<times> jsval) list"

text \<open>What a \<open>catch\<close> clause receives: an \<open>Error\<close> object with its message, or any
  other thrown value.\<close>

datatype thrown = Error jstring | NonError

definition truthy :: "jsval \<Rightarrow> bool" where
  "truthy v =
     (case v of
        JUndefined \<Rightarrow> False
      | JNull \<Rightarrow> False
      | JBool b \<Rightarrow> b
      | JNum n \<Rightarrow> n \<noteq> lit ''0'' \<and> n \<noteq> lit ''NaN''
      | JStr s \<Rightarrow> s \<noteq> []
      | JArr _ \<Rightarrow> True
      | JObj _ \<Rightarrow> True)"

text \<open>
  \<open>v.name\<close> for one of the names \<open>choices\<close>, \<open>delta\<close>, \<open>content\<close>, none of which is
  an inherited property of any value: \<open>None\<close> is the \<open>TypeError\<close> of reading a
  property of \<open>null\<close> or \<open>undefined\<close>.
\<close>

definition member :: "jsval \<Rightarrow> jstring \<Rightarrow> jsval option" where
  "member v name =
     (case v of
        JUndefined \<Rightarrow> None
      | JNull \<Rightarrow> None
      | JObj kvs \<Rightarrow> (case map_of kvs name of None \<Rightarrow> Some JUndefined | Some x \<Rightarrow> Some x)
      | _ \<Rightarrow> Some JUndefined)"

text \<open>\<open>v[0]\<close>: the first element of an array, the first code unit of a string, the
  property \<open>"0"\<close> of an object.\<close>

definition index0 :: "jsval \<Rightarrow> jsval option" where
  "index0 v =
     (case v of
        JUndefined \<Rightarrow> None
      | JNull \<Rightarrow> None
      | JArr xs \<Rightarrow> (case xs of [] \<Rightarrow> Some JUndefined | x # _ \<Rightarrow> Some x)
      | JStr s \<Rightarrow> (case s of [] \<Rightarrow> Some JUndefined | c # _ \<Rightarrow> Some (JStr [c]))
      | JObj kvs \<Rightarrow> (case map_of kvs (lit ''0'') of None \<Rightarrow> Some JUndefined | Some x \<Rightarrow> Some x)
      | _ \<Rightarrow> Some JUndefined)"

text \<open>Optional chaining, \<open>v?.name\<close> and \<open>v?.[0]\<close>: \<open>undefined\<close> when \<open>v\<close> is
  \<open>null\<close> or \<open>undefined\<close>, and no error.\<close>

definition opt_member :: "jsval \<Rightarrow> jstring \<Rightarrow> jsval" where
  "opt_member v name = (case member v name of None \<Rightarrow> JUndefined | Some x \<Rightarrow> x)"

definition opt_index0 :: "jsval \<Rightarrow> jsval" where
  "opt_index0 v = (case index0 v of None \<Rightarrow> JUndefined | Some x \<Rightarrow> x)"

text \<open>
  The string that \<open>s += v\<close> appends for a value \<open>v\<close>, and \<open>None\<close> where the
  conversion throws a \<open>TypeError\<close>. An object is converted by its \<open>valueOf\<close> and
  \<open>toString\<close> methods; the inherited \<open>valueOf\<close> returns the object itself, and the
  inherited \<open>toString\<close> gives \<open>[object Object]\<close>. A value parsed from JSON holds no
  function, so an own property \<open>toString\<close> hides the inherited method with something that
  cannot be called, and the conversion fails. An array is converted by \<open>join\<close>, which
  converts each element other than \<open>null\<close> and \<open>undefined\<close> in the same way.
\<close>

fun join_with :: "jstring \<Rightarrow> jstring list \<Rightarrow> jstring" where
  "join_with sep [] = []"
| "join_with sep [x] = x"
| "join_with sep (x # y # ys) = x @ sep @ join_with sep (y # ys)"

fun to_string :: "jsval \<Rightarrow> jstring option" where
  "to_string JUndefined = Some (lit ''undefined'')"
| "to_string JNull = Some (lit ''null'')"
| "to_string (JBool b) = Some (if b then lit ''true'' else lit ''false'')"
| "to_string (JNum n) = Some n"
| "to_string (JStr s) = Some s"
| "to_string (JArr xs) =
     map_option (join_with (lit '',''))
       (those (map (\<lambda>x. if x = JNull \<or> x = JUndefined then Some [] else to_string x) xs))"
| "to_string (JObj kvs) =
     (case map_of kvs (lit ''toString'') of
        None \<Rightarrow> Some (lit ''[object Object]'')
      | Some f \<Rightarrow> None)"

section \<open>The decoder of the response body\<close>

text \<open>
  \<open>new TextDecoder()\<close> is the UTF-8 decoder of the Encoding Standard, replacing
  malformed input by U+FFFD and dropping a leading byte order mark. It reads one byte
  at a time and keeps its state between calls of \<open>decode(value, {stream: true})\<close>,
  the only way the source calls it; the source never flushes it.
\<close>

record utf8_decoder =
  code_point :: nat
  bytes_seen :: nat
  bytes_needed :: nat
  lower_boundary :: byte
  upper_boundary :: byte

definition utf8_init :: utf8_decoder where
  "utf8_init =
     \<lparr>code_point = 0, bytes_seen = 0, bytes_needed = 0,
      lower_boundary = 0x80, upper_boundary = 0xBF\<rparr>"

text \<open>A byte read while no sequence is open (bytes needed is 0).\<close>

definition utf8_lead :: "utf8_decoder \<Rightarrow> byte \<Rightarrow> utf8_decoder \<times> nat list" where
  "utf8_lead d b =
     (if b \<le> 0x7F then (d, [unat b])
      else if 0xC2 \<le> b \<and> b \<le> 0xDF then
        (d\<lparr>bytes_needed := 1, code_point := unat (b AND 0x1F)\<rparr>, [])
      else if 0xE0 \<le> b \<and> b \<le> 0xEF then
        (d\<lparr>lower_boundary := (if b = 0xE0 then 0xA0 else lower_boundary d),
           upper_boundary := (if b = 0xED then 0x9F else upper_boundary d),
           bytes_needed := 2, code_point := unat (b AND 0x0F)\<rparr>, [])
      else if 0xF0 \<le> b \<and> b \<le> 0xF4 then
        (d\<lparr>lower_boundary := (if b = 0xF0 then 0x90 else lower_boundary d),
           upper_boundary := (if b = 0xF4 then 0x8F else upper_boundary d),
           bytes_needed := 3, code_point := unat (b AND 0x07)\<rparr>, [])
      else (d, [0xFFFD]))"

text \<open>
  One byte through the decoder: the new state and the code points emitted. A byte
  outside the expected range closes the open sequence with U+FFFD and is read again
  with the state reset.
\<close>

definition utf8_handler :: "utf8_decoder \<Rightarrow> byte \<Rightarrow> utf8_decoder \<times> nat list" where
  "utf8_handler d b =
     (if bytes_needed d = 0 then utf8_lead d b
      else if \<not> (lower_boundary d \<le> b \<and> b \<le> upper_boundary d) then
        (let (d', out) = utf8_lead utf8_init b in (d', 0xFFFD # out))
      else
        (let d1 = d\<lparr>lower_boundary := 0x80, upper_boundary := 0xBF,
                     code_point := push_bit 6 (code_point d) OR unat (b AND 0x3F),
                     bytes_seen := bytes_seen d + 1\<rparr>
         in if bytes_seen d1 \<noteq> bytes_needed d1 then (d1, [])
            else (d1\<lparr>code_point := 0, bytes_needed := 0, bytes_seen := 0\<rparr>,
                  [code_point d1])))"

fun utf8_run :: "utf8_decoder \<Rightarrow> byte list \<Rightarrow> utf8_decoder \<times> nat list" where
  "utf8_run d [] = (d, [])"
| "utf8_run d (b # bs) =
     (let (d1, out1) = utf8_handler d b;
          (d2, out2) = utf8_run d1 bs
      in (d2, out1 @ out2))"

text \<open>A code point as UTF-16 code units.\<close>

definition utf16 :: "nat \<Rightarrow> jstring" where
  "utf16 cp =
     (if cp < 0x10000 then [of_nat cp]
      else [of_nat (0xD800 + drop_bit 10 (cp - 0x10000)),
            of_nat (0xDC00 + (cp - 0x10000) mod 0x400)])"

record text_decoder =
  decoder :: utf8_decoder
  bom_seen :: bool

definition new_TextDecoder :: text_decoder where
  "new_TextDecoder = \<lparr>decoder = utf8_init, bom_seen = False\<rparr>"

text \<open>The first code point the decoder ever emits is dropped when it is U+FEFF.\<close>

definition serialize :: "bool \<Rightarrow> nat list \<Rightarrow> bool \<times> nat list" where
  "serialize seen cps =
     (if seen then (True, cps)
      else (case cps of
              [] \<Rightarrow> (False, [])
            | c # cs \<Rightarrow> (True, if c = 0xFEFF then cs else c # cs)))"

text \<open>\<open>decoder.decode(value, {stream: true})\<close>.\<close>

definition decode_stream :: "text_decoder \<Rightarrow> byte list \<Rightarrow> text_decoder \<times> jstring" where
  "decode_stream td bs =
     (let (d', cps) = utf8_run (decoder td) bs;
          (seen', cps') = serialize (bom_seen td) cps
      in (\<lparr>decoder = d', bom_seen = seen'\<rparr>, concat (map utf16 cps')))"

section \<open>Messages, conversations and the network\<close>

datatype role = User | Assistant

record message =
  role :: role
  content :: jstring
  timestamp :: int

record conversation =
  conv_id :: jstring
  title :: jstring
  conv_messages :: "message list"
  conv_timestamp :: int
  lastMessage :: "jstring option"

record model_settings =
  name :: jstring
  baseUrl :: jstring
  apiKey :: jstring

text \<open>
  A body reader delivers its chunks in order; after the last chunk \<open>read()\<close> either
  reports \<open>done\<close> or rejects.
\<close>

datatype read_end = EndOfStream | ReadFailure thrown

record reader =
  chunks :: "byte list list"
  ending :: read_end

text \<open>
  What \<open>fetch\<close> gives: a rejection, or a response with its status, the result of
  \<open>response.text()\<close> and the reader of \<open>response.body\<close>, if it has one.
\<close>

record response =
  ok :: bool
  status :: nat
  statusText :: jstring
  text_result :: "thrown + jstring"
  body :: "reader option"

datatype fetch_result = Rejected thrown | Responded response

text \<open>The request handed to \<open>fetch\<close>; \<open>req_body\<close> is the object given to
  \<open>JSON.stringify\<close>.\<close>

record request_body =
  model :: jstring
  body_messages :: "(role \<times> jstring) list"
  stream :: bool

record request =
  url :: jstring
  http_method :: jstring
  headers :: "(jstring \<times> jstring) list"
  req_body :: request_body

text \<open>\<open>error instanceof Error ? error.message : fallback\<close>.\<close>

definition message_or :: "thrown \<Rightarrow> jstring \<Rightarrow> jstring" where
  "message_or e fallback = (case e of Error m \<Rightarrow> m | NonError \<Rightarrow> fallback)"

section \<open>\<open>ZhipuAI.streamChat\<close> (api.ts)\<close>

definition BASE_URL :: jstring where
  "BASE_URL = lit ''https://open.bigmodel.cn/api/paas/v4''"

definition streamChat_request :: "jstring \<Rightarrow> message list \<Rightarrow> request" where
  "streamChat_request key msgs =
     \<lparr>url = BASE_URL @ lit ''/chat/completions'',
      http_method = lit ''POST'',
      headers = [(lit ''Content-Type'', lit ''application/json''),
                 (lit ''Authorization'', lit ''Bearer '' @ key)],
      req_body = \<lparr>model = lit ''glm-4-flash'',
                  body_messages = map (\<lambda>msg. (role msg, content msg)) msgs,
                  stream = True\<rparr>\<rparr>"

text \<open>
  The body of the \<open>try\<close> around \<open>JSON.parse(data)\<close> and
  \<open>parsed.choices?.[0]?.delta?.content\<close>. \<open>JSON.parse\<close> is the parameter \<open>parse\<close>,
  \<open>None\<close> where it throws. The result is \<open>None\<close> when the \<open>try\<close> body throws (the
  \<open>catch\<close> ignores it).
\<close>

definition streamChat_content :: "(jstring \<Rightarrow> jsval option) \<Rightarrow> jstring \<Rightarrow> jsval option" where
  "streamChat_content parse data =
     (case parse data of
        None \<Rightarrow> None
      | Some parsed \<Rightarrow>
          (case member parsed (lit ''choices'') of
             None \<Rightarrow> None
           | Some choices \<Rightarrow>
               Some (opt_member (opt_member (opt_index0 choices) (lit ''delta'')) (lit ''content''))))"

text \<open>
  The \<open>for\<close> loop over the complete lines of one read: the values yielded, and whether
  the loop left the generator at \<open>data: [DONE]\<close>.
\<close>

fun streamChat_lines :: "(jstring \<Rightarrow> jsval option) \<Rightarrow> jstring list \<Rightarrow> jsval list \<times> bool" where
  "streamChat_lines parse [] = ([], False)"
| "streamChat_lines parse (line # rest) =
     (if startsWith line (lit ''data: '') then
        (let data = slice_from 6 line in
         if data = lit ''[DONE]'' then ([], True)
         else
           (case streamChat_content parse data of
              None \<Rightarrow> streamChat_lines parse rest
            | Some c \<Rightarrow>
                if truthy c then
                  (let (ys, fin) = streamChat_lines parse rest in (c # ys, fin))
                else streamChat_lines parse rest))
      else streamChat_lines parse rest)"

datatype outcome = Returned | Threw thrown

definition streamChat_wrap :: "thrown \<Rightarrow> thrown" where
  "streamChat_wrap e = Error (lit ''Stream chat failed: '' @ message_or e (lit ''Unknown error''))"

text \<open>
  The \<open>while (true)\<close> loop: one iteration per chunk of the reader, with the decoder
  and the buffer carried along. The result is what the generator yields, in order, and
  how it ends.
\<close>

fun streamChat_read ::
  "(jstring \<Rightarrow> jsval option) \<Rightarrow> text_decoder \<Rightarrow> jstring \<Rightarrow> byte list list \<Rightarrow> read_end
     \<Rightarrow> jsval list \<times> outcome" where
  "streamChat_read parse td buffer [] e =
     ([], case e of EndOfStream \<Rightarrow> Returned | ReadFailure x \<Rightarrow> Threw (streamChat_wrap x))"
| "streamChat_read parse td buffer (v # vs) e =
     (let (td', decoded) = decode_stream td v;
          lines = split_nl (buffer @ decoded);
          buffer' = last lines;
          (ys, fin) = streamChat_lines parse (butlast lines)
      in if fin then (ys, Returned)
         else (let (zs, out) = streamChat_read parse td' buffer' vs e in (ys @ zs, out)))"

definition streamChat ::
  "(jstring \<Rightarrow> jsval option) \<Rightarrow> (request \<Rightarrow> fetch_result) \<Rightarrow> jstring \<Rightarrow> message list
     \<Rightarrow> jsval list \<times> outcome" where
  "streamChat parse fetch key msgs =
     (case fetch (streamChat_request key msgs) of
        Rejected x \<Rightarrow> ([], Threw (streamChat_wrap x))
      | Responded resp \<Rightarrow>
          if \<not> ok resp then
            ([], Threw (streamChat_wrap
                   (Error (lit ''API Error: '' @ digits (status resp) @ lit '' '' @ statusText resp))))
          else
            (case body resp of
               None \<Rightarrow> ([], Threw (streamChat_wrap (Error (lit ''Failed to get response reader''))))
             | Some rd \<Rightarrow> streamChat_read parse new_TextDecoder [] (chunks rd) (ending rd)))"

section \<open>The chat component\<close>

text \<open>
  The state of the component: its \<open>useState\<close> cells. \<open>clock_reads\<close> counts the calls
  of \<open>Date.now()\<close> whose value reaches the state; the k-th such call returns
  \<open>clock k\<close>, for a \<open>clock\<close> given by the environment. (The calls made for console
  logging only are left out, with the logging itself.)
\<close>

record chat_state =
  conversations :: "conversation list"
  currentConversationId :: "jstring option"
  messages :: "message list"
  input :: jstring
  isLoading :: bool
  error :: "jstring option"
  modelSettings :: model_settings
  clock_reads :: nat

definition Date_now :: "(nat \<Rightarrow> int) \<Rightarrow> chat_state \<Rightarrow> int \<times> chat_state" where
  "Date_now clock st = (clock (clock_reads st), st\<lparr>clock_reads := clock_reads st + 1\<rparr>)"

definition default_title :: jstring where
  "default_title = [0x65B0, 0x5BF9, 0x8BDD]"

text \<open>\<open>newMessages.find(m => m.role === 'user')\<close>.\<close>

definition find_user :: "message list \<Rightarrow> message option" where
  "find_user ms = find (\<lambda>m. role m = User) ms"

text \<open>The title and the preview that \<open>updateConversation\<close> computes; \<open>x || y\<close> on
  strings is \<open>y\<close> exactly when \<open>x\<close> is empty.\<close>

definition update_title :: "message list \<Rightarrow> jstring" where
  "update_title newMessages =
     (case find_user newMessages of
        None \<Rightarrow> default_title
      | Some lastUserMessage \<Rightarrow>
          (if slice0 15 (content lastUserMessage) \<noteq> [] then slice0 15 (content lastUserMessage)
           else default_title))"

definition update_lastMessage :: "message list \<Rightarrow> jstring" where
  "update_lastMessage newMessages =
     (if newMessages = [] then [] else slice0 30 (content (last newMessages)))"

text \<open>
  The \<open>map\<close> of \<open>updateConversation\<close> over the list, from the k-th clock read on:
  every entry with the given id is rebuilt, with a time stamp read for it.
\<close>

fun update_entries ::
  "(nat \<Rightarrow> int) \<Rightarrow> jstring \<Rightarrow> message list \<Rightarrow> nat \<Rightarrow> conversation list
     \<Rightarrow> conversation list \<times> nat" where
  "update_entries clock conversationId newMessages k [] = ([], k)"
| "update_entries clock conversationId newMessages k (conv # convs) =
     (if conv_id conv = conversationId then
        (let conv' = conv\<lparr>conv_messages := newMessages,
                           title := update_title newMessages,
                           lastMessage := Some (update_lastMessage newMessages),
                           conv_timestamp := clock k\<rparr>;
             (convs', k') = update_entries clock conversationId newMessages (k + 1) convs
         in (conv' # convs', k'))
      else
        (let (convs', k') = update_entries clock conversationId newMessages k convs
         in (conv # convs', k')))"

definition updateConversation ::
  "(nat \<Rightarrow> int) \<Rightarrow> jstring \<Rightarrow> message list \<Rightarrow> chat_state \<Rightarrow> chat_state" where
  "updateConversation clock conversationId newMessages st =
     (let (convs', k') =
            update_entries clock conversationId newMessages (clock_reads st) (conversations st)
      in st\<lparr>conversations := convs', clock_reads := k'\<rparr>)"

definition selectConversation :: "jstring \<Rightarrow> chat_state \<Rightarrow> chat_state" where
  "selectConversation conversationId st =
     (let st1 = st\<lparr>currentConversationId := Some conversationId\<rparr>;
          st2 = (case find (\<lambda>c. conv_id c = conversationId) (conversations st) of
                   Some conversation \<Rightarrow> st1\<lparr>messages := conv_messages conversation\<rparr>
                 | None \<Rightarrow> st1)
      in st2\<lparr>error := None\<rparr>)"

definition renameConversation :: "jstring \<Rightarrow> jstring \<Rightarrow> chat_state \<Rightarrow> chat_state" where
  "renameConversation conversationId newTitle st =
     st\<lparr>conversations :=
          map (\<lambda>conv. if conv_id conv = conversationId then conv\<lparr>title := newTitle\<rparr> else conv)
            (conversations st)\<rparr>"

definition createNewConversation :: "chat_state \<Rightarrow> chat_state" where
  "createNewConversation st =
     st\<lparr>currentConversationId := None, messages := [], input := [], error := None\<rparr>"




subsection \<open>\<open>handleSend\<close>\<close>

definition config_missing_message :: jstring where
  "config_missing_message =
     [0x8BF7, 0x5148, 0x914D, 0x7F6E, 0x6A21, 0x578B, 0x8BBE, 0x7F6E, 0xFF08, 0x6A21, 0x578B,
      0x540D, 0x79F0, 0x3001] @ lit ''API Base'' @ [0x3001] @ lit ''API Key'' @ [0xFF09]"

definition request_failed_prefix :: jstring where
  "request_failed_prefix = lit ''API'' @ [0x8BF7, 0x6C42, 0x5931, 0x8D25] @ lit '': ''"

definition no_stream_message :: jstring where
  "no_stream_message = [0x65E0, 0x6CD5, 0x83B7, 0x53D6, 0x54CD, 0x5E94, 0x6D41]"

definition send_failed_message :: jstring where
  "send_failed_message = [0x53D1, 0x9001, 0x6D88, 0x606F, 0x5931, 0x8D25]"

text \<open>The local variables of one run of \<open>handleSend\<close> that its later parts read.\<close>

record send_context =
  userMessage :: message
  conversationId :: jstring
  assistantMessage :: message
  currentMessages :: "message list"

text \<open>
  \<open>handleSend\<close> from behind its two guards up to the \<open>fetch\<close>: the user message, the
  new conversation when none is current (\<open>!conversationId\<close> holds for \<open>null\<close> and for
  the empty string), the placeholder of the assistant. \<open>messages\<close>, \<open>input\<close> and
  \<open>currentConversationId\<close> read in this run are those of the state it started in.
\<close>

definition handleSend_begin :: "(nat \<Rightarrow> int) \<Rightarrow> chat_state \<Rightarrow> chat_state \<times> send_context" where
  "handleSend_begin clock st =
     (let (t_user, st1) = Date_now clock st;
          userMessage = \<lparr>role = User, content = trim (input st), timestamp = t_user\<rparr>;
          create =
            (let (t_id, sa) = Date_now clock st1;
                 (t_conv, sb) = Date_now clock sa;
                 newConversation =
                   \<lparr>conv_id = show_int t_id,
                    title = slice0 15 (trim (input st)),
                    conv_messages = [],
                    conv_timestamp = t_conv,
                    lastMessage = Some (slice0 30 (trim (input st)))\<rparr>
             in (conv_id newConversation,
                 sb\<lparr>conversations := newConversation # conversations sb,
                    currentConversationId := Some (conv_id newConversation)\<rparr>));
          (conversationId, st2) =
            (case currentConversationId st of
               None \<Rightarrow> create
             | Some i \<Rightarrow> if i = [] then create else (i, st1));
          st3 = st2\<lparr>messages := messages st2 @ [userMessage], input := [],
                    isLoading := True, error := None\<rparr>;
          (t_assistant, st4) = Date_now clock st3;
          assistantMessage = \<lparr>role = Assistant, content = [], timestamp = t_assistant\<rparr>;
          st5 = st4\<lparr>messages := messages st4 @ [assistantMessage]\<rparr>
      in (st5,
          \<lparr>userMessage = userMessage, conversationId = conversationId,
           assistantMessage = assistantMessage,
           currentMessages = messages st @ [userMessage]\<rparr>))"

definition completion_request :: "model_settings \<Rightarrow> message list \<Rightarrow> request" where
  "completion_request ms msgs =
     \<lparr>url = baseUrl ms @ lit ''/chat/completions'',
      http_method = lit ''POST'',
      headers = [(lit ''Content-Type'', lit ''application/json''),
                 (lit ''Authorization'', lit ''Bearer '' @ apiKey ms)],
      req_body = \<lparr>model = (if name ms \<noteq> [] then name ms else lit ''glm-4-flash''),
                  body_messages = map (\<lambda>msg. (role msg, content msg)) msgs,
                  stream = True\<rparr>\<rparr>"

text \<open>
  The \<open>try\<close> body around \<open>JSON.parse(data)\<close> and
  \<open>parsed.choices[0]?.delta?.content || ''\<close>: \<open>None\<close> when it throws, which the
  \<open>catch\<close> logs and ignores; otherwise the value of \<open>content\<close>, the empty string
  when the field is falsy.
\<close>

definition handleSend_content :: "(jstring \<Rightarrow> jsval option) \<Rightarrow> jstring \<Rightarrow> jsval option" where
  "handleSend_content parse data =
     (case parse data of
        None \<Rightarrow> None
      | Some parsed \<Rightarrow>
          (case member parsed (lit ''choices'') of
             None \<Rightarrow> None
           | Some choices \<Rightarrow>
               (case index0 choices of
                  None \<Rightarrow> None
                | Some choice \<Rightarrow>
                    (let c = opt_member (opt_member choice (lit ''delta'')) (lit ''content'')
                     in Some (if truthy c then c else JStr [])))))"

text \<open>What follows \<open>fullResponse += content\<close> when it has appended the string \<open>s\<close>:
  both the displayed messages and the conversation are set to the history followed by
  the assistant message holding the whole of \<open>fullResponse\<close>.\<close>

definition apply_delta ::
  "(nat \<Rightarrow> int) \<Rightarrow> send_context \<Rightarrow> jstring \<Rightarrow> jstring \<times> chat_state \<Rightarrow> jstring \<times> chat_state" where
  "apply_delta clock cx s acc =
     (let fullResponse = fst acc @ s;
          shown = currentMessages cx @ [(assistantMessage cx)\<lparr>content := fullResponse\<rparr>]
      in (fullResponse,
          updateConversation clock (conversationId cx) shown ((snd acc)\<lparr>messages := shown\<rparr>)))"

text \<open>The \<open>for\<close> loop over the complete lines of one read; \<open>data: [DONE]\<close> is
  skipped with \<open>continue\<close>. Where \<open>fullResponse += content\<close> throws, the \<open>catch\<close>
  takes over before anything is assigned or set, as for the other errors of the
  \<open>try\<close> body.\<close>

fun handleSend_lines ::
  "(jstring \<Rightarrow> jsval option) \<Rightarrow> (nat \<Rightarrow> int) \<Rightarrow> send_context \<Rightarrow> jstring list
     \<Rightarrow> jstring \<times> chat_state \<Rightarrow> jstring \<times> chat_state" where
  "handleSend_lines parse clock cx [] acc = acc"
| "handleSend_lines parse clock cx (line # rest) acc =
     (if startsWith line (lit ''data: '') then
        (let data = slice_from 6 line in
         if data = lit ''[DONE]'' then handleSend_lines parse clock cx rest acc
         else
           (case handleSend_content parse data of
              None \<Rightarrow> handleSend_lines parse clock cx rest acc
            | Some c \<Rightarrow>
                if truthy c then
                  (case to_string c of
                     None \<Rightarrow> handleSend_lines parse clock cx rest acc
                   | Some s \<Rightarrow>
                       handleSend_lines parse clock cx rest (apply_delta clock cx s acc))
                else handleSend_lines parse clock cx rest acc))
      else handleSend_lines parse clock cx rest acc)"

text \<open>The \<open>while (true)\<close> loop over the reads, up to the end of the chunks.\<close>

fun handleSend_read ::
  "(jstring \<Rightarrow> jsval option) \<Rightarrow> (nat \<Rightarrow> int) \<Rightarrow> send_context \<Rightarrow> text_decoder \<Rightarrow> jstring
     \<Rightarrow> byte list list \<Rightarrow> jstring \<times> chat_state \<Rightarrow> jstring \<times> chat_state" where
  "handleSend_read parse clock cx td buffer [] acc = acc"
| "handleSend_read parse clock cx td buffer (v # vs) acc =
     (let (td', decoded) = decode_stream td v;
          lines = split_nl (buffer @ decoded);
          buffer' = last lines
      in handleSend_read parse clock cx td' buffer' vs
           (handleSend_lines parse clock cx (butlast lines) acc))"

text \<open>The \<open>try\<close> block from the \<open>fetch\<close> on: the state it leaves, and the value
  thrown if it throws.\<close>

definition handleSend_try ::
  "(jstring \<Rightarrow> jsval option) \<Rightarrow> (nat \<Rightarrow> int) \<Rightarrow> send_context \<Rightarrow> fetch_result \<Rightarrow> chat_state
     \<Rightarrow> chat_state \<times> thrown option" where
  "handleSend_try parse clock cx res st =
     (case res of
        Rejected e \<Rightarrow> (st, Some e)
      | Responded resp \<Rightarrow>
          if \<not> ok resp then
            (case text_result resp of
               Inl e \<Rightarrow> (st, Some e)
             | Inr errorText \<Rightarrow>
                 (st, Some (Error (request_failed_prefix @ digits (status resp)
                                   @ lit '' - '' @ errorText))))
          else
            (case body resp of
               None \<Rightarrow> (st, Some (Error no_stream_message))
             | Some rd \<Rightarrow>
                 (let acc = handleSend_read parse clock cx new_TextDecoder [] (chunks rd) ([], st)
                  in (snd acc, case ending rd of EndOfStream \<Rightarrow> None | ReadFailure e \<Rightarrow> Some e))))"

text \<open>The \<open>catch\<close> block: \<open>messages\<close> is the list the run started with.\<close>

definition handleSend_catch ::
  "(nat \<Rightarrow> int) \<Rightarrow> message list \<Rightarrow> send_context \<Rightarrow> thrown \<Rightarrow> chat_state \<Rightarrow> chat_state" where
  "handleSend_catch clock msgs cx e st =
     updateConversation clock (conversationId cx) (msgs @ [userMessage cx])
       (st\<lparr>error := Some (message_or e send_failed_message)\<rparr>)"

text \<open>
  \<open>handleSend\<close>: the state after the run and the requests it issued, in order.
\<close>

definition handleSend ::
  "(jstring \<Rightarrow> jsval option) \<Rightarrow> (nat \<Rightarrow> int) \<Rightarrow> (request \<Rightarrow> fetch_result) \<Rightarrow> chat_state
     \<Rightarrow> chat_state \<times> request list" where
  "handleSend parse clock fetch st =
     (if trim (input st) = [] \<or> isLoading st then (st, [])
      else if name (modelSettings st) = [] \<or> baseUrl (modelSettings st) = []
              \<or> apiKey (modelSettings st) = [] then
        (st\<lparr>error := Some config_missing_message\<rparr>, [])
      else
        (let (st1, cx) = handleSend_begin clock st;
             req = completion_request (modelSettings st) (currentMessages cx);
             (st2, thrown) = handleSend_try parse clock cx (fetch req) st1;
             st3 = (case thrown of
                      None \<Rightarrow> st2
                    | Some e \<Rightarrow> handleSend_catch clock (messages st) cx e st2)
         in (st3\<lparr>isLoading := False\<rparr>, [req])))"

text \<open>The effect that saves the list: storage is written when the list is not empty.\<close>

definition save_conversations :: "conversation list option \<Rightarrow> chat_state \<Rightarrow> conversation list option" where
  "save_conversations stored st =
     (if length (conversations st) > 0 then Some (conversations st) else stored)"

text \<open>
  The error banner, \<open>{error && (... {error} ...)}\<close>: it is rendered, with the text of
  \<open>error\<close>, when \<open>error\<close> is neither \<open>null\<close> nor the empty string.
\<close>

definition banner :: "chat_state \<Rightarrow> jstring option" where
  "banner st = (case error st of None \<Rightarrow> None | Some m \<Rightarrow> if m = [] then None else Some m)"

section \<open>Notions used to state the properties\<close>

text \<open>
  The current conversation, if there is one, is an entry of the list: so it is when it
  was created by a send or chosen from the list. (\<open>handleSend\<close> takes the empty id
  for no conversation.)
\<close>

definition active_in_store :: "chat_state \<Rightarrow> bool" where
  "active_in_store st =
     (case currentConversationId st of
        None \<Rightarrow> True
      | Some i \<Rightarrow> i = [] \<or> i \<in> set (map conv_id (conversations st)))"

text \<open>The text that the decoder produces over a sequence of reads, with its state
  carried from one read to the next.\<close>

fun decode_all :: "text_decoder \<Rightarrow> byte list list \<Rightarrow> jstring" where
  "decode_all td [] = []"
| "decode_all td (v # vs) = (let (td', t) = decode_stream td v in t @ decode_all td' vs)"

text \<open>How \<open>streamChat\<close> ends when the reader runs out of chunks.\<close>

definition end_outcome :: "read_end \<Rightarrow> outcome" where
  "end_outcome e =
     (case e of EndOfStream \<Rightarrow> Returned | ReadFailure x \<Rightarrow> Threw (streamChat_wrap x))"

text \<open>
  The strings that the loops of \<open>handleSend\<close> append to \<open>fullResponse\<close>, in the order
  in which they do: first over the lines of one read, then over the reads.
\<close>

fun handleSend_deltas :: "(jstring \<Rightarrow> jsval option) \<Rightarrow> jstring list \<Rightarrow> jstring list" where
  "handleSend_deltas parse [] = []"
| "handleSend_deltas parse (line # rest) =
     (if startsWith line (lit ''data: '') then
        (let data = slice_from 6 line in
         if data = lit ''[DONE]'' then handleSend_deltas parse rest
         else
           (case handleSend_content parse data of
              None \<Rightarrow> handleSend_deltas parse rest
            | Some c \<Rightarrow>
                if truthy c then
                  (case to_string c of
                     None \<Rightarrow> handleSend_deltas parse rest
                   | Some s \<Rightarrow> s # handleSend_deltas parse rest)
                else handleSend_deltas parse rest))
      else handleSend_deltas parse rest)"

fun handleSend_read_deltas ::
  "(jstring \<Rightarrow> jsval option) \<Rightarrow> text_decoder \<Rightarrow> jstring \<Rightarrow> byte list list \<Rightarrow> jstring list" where
  "handleSend_read_deltas parse td buffer [] = []"
| "handleSend_read_deltas parse td buffer (v # vs) =
     (let (td', decoded) = decode_stream td v;
          lines = split_nl (buffer @ decoded)
      in handleSend_deltas parse (butlast lines)
           @ handleSend_read_deltas parse td' (last lines) vs)"

text \<open>The value that the \<open>try\<close> block of \<open>handleSend\<close> throws for a result of
  \<open>fetch\<close>, if any, and the deltas its loop applies before that.\<close>

definition thrown_by :: "fetch_result \<Rightarrow> thrown option" where
  "thrown_by res =
     (case res of
        Rejected e \<Rightarrow> Some e
      | Responded resp \<Rightarrow>
          if \<not> ok resp then
            (case text_result resp of
               Inl e \<Rightarrow> Some e
             | Inr errorText \<Rightarrow>
                 Some (Error (request_failed_prefix @ digits (status resp)
                              @ lit '' - '' @ errorText)))
          else
            (case body resp of
               None \<Rightarrow> Some (Error no_stream_message)
             | Some rd \<Rightarrow> (case ending rd of EndOfStream \<Rightarrow> None | ReadFailure e \<Rightarrow> Some e)))"

definition applied_deltas :: "(jstring \<Rightarrow> jsval option) \<Rightarrow> fetch_result \<Rightarrow> jstring list" where
  "applied_deltas parse res =
     (case res of
        Rejected e \<Rightarrow> []
      | Responded resp \<Rightarrow>
          if \<not> ok resp then []
          else
            (case body resp of
               None \<Rightarrow> []
             | Some rd \<Rightarrow> handleSend_read_deltas parse new_TextDecoder [] (chunks rd)))"

subsection \<open>Sample data\<close>

text \<open>
  Frames of the shape \<open>{"choices":[{"delta":{"content":"s"}}]}\<close>, for a string \<open>s\<close>
  free of quotes, backslashes and control characters, and the object that
  \<open>JSON.parse\<close> returns for such a frame. \<open>example_parse\<close> stands for \<open>JSON.parse\<close> in
  the examples: it parses these frames, and the examples give it nothing else that
  is JSON.
\<close>

definition content_object :: "jstring \<Rightarrow> jsval" where
  "content_object s =
     JObj [(lit ''choices'', JArr [JObj [(lit ''delta'', JObj [(lit ''content'', JStr s)])]])]"

definition frame_prefix :: jstring where
  \<open>frame_prefix = lit ''{"choices":[{"delta":{"content":"''\<close>

definition frame_suffix :: jstring where
  \<open>frame_suffix = lit ''"}}]}''\<close>

definition example_parse :: "jstring \<Rightarrow> jsval option" where
  "example_parse data =
     (let s = take (length data - length frame_prefix - length frame_suffix)
                (drop (length frame_prefix) data)
      in if data = frame_prefix @ s @ frame_suffix
            \<and> list_all (\<lambda>c. c \<noteq> 0x22 \<and> c \<noteq> 0x5C \<and> 0x20 \<le> c) s
         then Some (content_object s) else None)"

text \<open>The bytes of lines of ASCII text, each ended by a line feed.\<close>

definition ascii_bytes :: "string \<Rightarrow> byte list" where
  "ascii_bytes s = map (\<lambda>c. of_nat (of_char c)) s"

definition sse_bytes :: "string list \<Rightarrow> byte list" where
  "sse_bytes ls = concat (map (\<lambda>l. ascii_bytes l @ [0x0A]) ls)"

definition ascii_line :: "string \<Rightarrow> bool" where
  "ascii_line l = list_all (\<lambda>c. (of_char c :: nat) < 128 \<and> (of_char c :: nat) \<noteq> 10) l"

definition hi_frame :: string where
  \<open>hi_frame = ''data: {"choices":[{"delta":{"content":"Hi"}}]}''\<close>

definition there_frame :: string where
  \<open>there_frame = ''data: {"choices":[{"delta":{"content":" there"}}]}''\<close>

definition done_frame :: string where
  "done_frame = ''data: [DONE]''"

text \<open>A clock that advances by one millisecond at each read, and a state of a first
  run: settings filled in, no conversation, \<open>hello\<close> typed.\<close>

definition example_clock :: "nat \<Rightarrow> int" where
  "example_clock k = 1700000000000 + int k"

definition example_settings :: model_settings where
  "example_settings =
     \<lparr>name = lit ''glm-4-flash'', baseUrl = lit ''https://x/v1'', apiKey = lit ''k''\<rparr>"

definition example_state :: chat_state where
  "example_state =
     \<lparr>conversations = [], currentConversationId = None, messages = [],
      input = lit ''hello'', isLoading = False, error = None,
      modelSettings = example_settings, clock_reads = 0\<rparr>"

definition ok_response :: "byte list list \<Rightarrow> read_end \<Rightarrow> fetch_result" where
  "ok_response vs e =
     Responded \<lparr>ok = True, status = 200, statusText = lit ''OK'', text_result = Inr [],
                body = Some \<lparr>chunks = vs, ending = e\<rparr>\<rparr>"

text \<open>The sample state with a request in flight, with blank input, and with no
  settings yet.\<close>

definition busy_state :: chat_state where
  "busy_state = example_state\<lparr>isLoading := True\<rparr>"

definition blank_state :: chat_state where
  "blank_state = example_state\<lparr>input := lit ''  ''\<rparr>"

definition unconfigured_state :: chat_state where
  "unconfigured_state =
     example_state\<lparr>modelSettings := \<lparr>name = [], baseUrl = [], apiKey = []\<rparr>\<rparr>"

definition empty_response :: "request \<Rightarrow> fetch_result" where
  "empty_response r = ok_response [] EndOfStream"

text \<open>The state of a first run: nothing typed, no settings.\<close>

definition first_run_state :: chat_state where
  "first_run_state =
     \<lparr>conversations = [], currentConversationId = None, messages = [], input = [],
      isLoading = False, error = None,
      modelSettings = \<lparr>name = [], baseUrl = [], apiKey = []\<rparr>, clock_reads = 0\<rparr>"

text \<open>A response whose body delivers the frame \<open>Hi\<close> and then fails to read.\<close>

definition broken_response :: "request \<Rightarrow> fetch_result" where
  "broken_response r =
     ok_response [sse_bytes [hi_frame]] (ReadFailure (Error (lit ''network error'')))"

text \<open>Responses whose body is one chunk: the two frames and the sentinel; the sentinel
  followed by a frame.\<close>

definition hi_there_response :: "request \<Rightarrow> fetch_result" where
  "hi_there_response r = ok_response [sse_bytes [hi_frame, there_frame, done_frame]] EndOfStream"

definition late_response :: "request \<Rightarrow> fetch_result" where
  "late_response r = ok_response [sse_bytes [done_frame, hi_frame]] EndOfStream"

subsection \<open>Days and order\<close>




text \<open>Two conversations, the newer first.\<close>

definition two_conversations :: "conversation list" where
  "two_conversations =
     [\<lparr>conv_id = lit ''200'', title = lit ''second'', conv_messages = [],
       conv_timestamp = 200, lastMessage = Some []\<rparr>,
      \<lparr>conv_id = lit ''100'', title = lit ''first'', conv_messages = [],
       conv_timestamp = 100, lastMessage = Some []\<rparr>]"

definition two_state :: chat_state where
  "two_state = example_state\<lparr>conversations := two_conversations\<rparr>"



text \<open>A message list whose only message is a user message with no content.\<close>

definition blank_messages :: "message list" where
  "blank_messages = [\<lparr>role = User, content = [], timestamp = 0\<rparr>]"

text \<open>A message list whose only message is the user message \<open>hello\<close>.\<close>

definition hello_messages :: "message list" where
  "hello_messages = [\<lparr>role = User, content = lit ''hello'', timestamp = 0\<rparr>]"

section \<open>Properties of the decoder and of line splitting\<close>

text \<open>The decoder reads byte by byte, so cutting its input anywhere changes nothing.\<close>

lemma utf8_run_append:
  "utf8_run d (xs @ ys) =
     (let (d1, o1) = utf8_run d xs; (d2, o2) = utf8_run d1 ys in (d2, o1 @ o2))"
  by (induction xs arbitrary: d) (simp_all split: prod.splits)

lemma serialize_append:
  "serialize seen (a @ b) =
     (let (s1, a') = serialize seen a; (s2, b') = serialize s1 b in (s2, a' @ b'))"
  by (cases a) (simp_all add: serialize_def split: list.splits)

lemma decode_stream_append:
  "decode_stream td (xs @ ys) =
     (let (td1, t1) = decode_stream td xs; (td2, t2) = decode_stream td1 ys in (td2, t1 @ t2))"
  by (simp add: decode_stream_def utf8_run_append serialize_append split: prod.splits)

text \<open>ASCII bytes decode to themselves.\<close>

lemma utf8_handler_ascii: "b \<le> 0x7F \<Longrightarrow> utf8_handler utf8_init b = (utf8_init, [unat b])"
  by (simp add: utf8_handler_def utf8_lead_def utf8_init_def)

lemma utf8_run_ascii:
  "list_all (\<lambda>b. b \<le> 0x7F) bs \<Longrightarrow> utf8_run utf8_init bs = (utf8_init, map unat bs)"
  by (induction bs) (simp_all add: utf8_handler_ascii)

lemma unat_byte_small: "unat (b :: byte) < 256"
proof -
  have "unat b < 2 ^ LENGTH(8)" by (rule unsigned_less)
  then show ?thesis by simp
qed

lemma utf16_byte: "utf16 (unat (b :: byte)) = [ucast b]"
proof -
  have "unat b < 0x10000" using unat_byte_small [of b] by linarith
  then show ?thesis by (simp add: utf16_def)
qed

lemma decode_stream_ascii:
  "list_all (\<lambda>b. b \<le> 0x7F) bs \<Longrightarrow>
   decode_stream \<lparr>decoder = utf8_init, bom_seen = seen\<rparr> bs =
     (\<lparr>decoder = utf8_init, bom_seen = (seen \<or> bs \<noteq> [])\<rparr>, map ucast bs)"
proof -
  assume small: "list_all (\<lambda>b. b \<le> 0x7F) bs"
  have run: "utf8_run utf8_init bs = (utf8_init, map unat bs)"
    using small by (rule utf8_run_ascii)
  have units: "concat (map (utf16 \<circ> unat) xs) = map ucast xs" for xs :: "byte list"
    by (induction xs) (simp_all add: utf16_byte)
  have ser: "serialize seen (map unat bs) = (seen \<or> bs \<noteq> [], map unat bs)"
  proof (cases bs)
    case Nil
    then show ?thesis by (simp add: serialize_def)
  next
    case (Cons b bs')
    have "unat b \<noteq> 0xFEFF" using unat_byte_small [of b] by linarith
    with Cons show ?thesis by (simp add: serialize_def)
  qed
  show ?thesis
    by (simp add: decode_stream_def run ser units)
qed

lemma unat_ascii_byte: "unat (of_nat (of_char c) :: byte) = of_char c"
  by (simp add: unat_of_nat)

lemma unat_ascii_unit: "unat (of_nat (of_char c) :: 16 word) = of_char c"
proof -
  have "(of_char c :: nat) < 256" by simp
  then have "(of_char c :: nat) < 65536" by linarith
  then show ?thesis by (simp add: unat_of_nat)
qed

lemma ascii_bytes_small: "ascii_line l \<Longrightarrow> list_all (\<lambda>b. b \<le> 0x7F) (ascii_bytes l)"
  by (induction l) (auto simp: ascii_line_def ascii_bytes_def word_le_nat_alt unat_ascii_byte)

lemma ucast_ascii_bytes: "map ucast (ascii_bytes l) = lit l"
proof -
  have "ucast (of_nat (of_char c) :: byte) = (of_nat (of_char c) :: 16 word)" for c
  proof -
    have "(of_char c :: nat) < 256" by simp
    then have "(of_char c :: nat) < 65536" by linarith
    then have "(of_char c :: nat) < 2 ^ 16" by simp
    then have "take_bit 16 (of_char c :: nat) = of_char c"
      by (simp only: take_bit_nat_eq_self)
    then show ?thesis
      by (simp add: word_unat_eq_iff unsigned_ucast_eq unat_ascii_byte unat_ascii_unit)
  qed
  then show ?thesis by (simp add: ascii_bytes_def lit_def)
qed

lemma nl_free: "ascii_line l \<Longrightarrow> 0x0A \<notin> set (lit l)"
  by (induction l) (auto simp: ascii_line_def lit_def word_unat_eq_iff unat_ascii_unit)

lemma split_nl_nonempty: "split_nl s \<noteq> []"
  by (induction s) (simp_all split: list.splits)

lemma split_nl_append:
  "split_nl (a @ b) =
     butlast (split_nl a) @ ((last (split_nl a) @ hd (split_nl b)) # tl (split_nl b))"
proof (induction a)
  case Nil
  show ?case using split_nl_nonempty [of b] by simp
next
  case (Cons c a)
  then show ?case
    using split_nl_nonempty [of a] split_nl_nonempty [of "a @ b"]
    by (cases "split_nl a"; cases "tl (split_nl a)") (auto split: list.splits)
qed

lemma split_nl_no_nl: "0x0A \<notin> set s \<Longrightarrow> split_nl s = [s]"
  by (induction s) auto

lemma split_nl_line: "0x0A \<notin> set l \<Longrightarrow> split_nl (l @ 0x0A # s) = l # split_nl s"
  by (induction l) auto

lemma last_split_nl_no_nl: "0x0A \<notin> set (last (split_nl s))"
proof (induction s)
  case Nil
  show ?case by simp
next
  case (Cons c s)
  obtain l ls where sp: "split_nl s = l # ls"
    using split_nl_nonempty [of s] by (cases "split_nl s") auto
  with Cons show ?case
    by (cases ls) auto
qed

text \<open>Holding back the last fragment and putting it in front of the next text gives
  the lines of the whole text.\<close>

lemma split_nl_carry:
  "split_nl (a @ b) = butlast (split_nl a) @ split_nl (last (split_nl a) @ b)"
proof -
  have "split_nl (last (split_nl a) @ b) =
          (last (split_nl a) @ hd (split_nl b)) # tl (split_nl b)"
    using split_nl_append [of "last (split_nl a)" b]
    by (simp add: split_nl_no_nl [OF last_split_nl_no_nl])
  then show ?thesis
    by (simp add: split_nl_append [of a b])
qed

lemma butlast_split_nl_append:
  "butlast (split_nl (a @ b)) = butlast (split_nl a) @ butlast (split_nl (last (split_nl a) @ b))"
  by (subst split_nl_carry) (simp add: butlast_append split_nl_nonempty)

lemma last_split_nl_append:
  "last (split_nl (a @ b)) = last (split_nl (last (split_nl a) @ b))"
  by (subst split_nl_carry) (simp add: split_nl_nonempty)

section \<open>The loops in terms of the lines of the whole text\<close>

lemma decode_all_concat: "decode_all td vs = snd (decode_stream td (concat vs))"
proof (induction vs arbitrary: td)
  case Nil
  show ?case by (simp add: decode_stream_def serialize_def split: prod.splits)
next
  case (Cons v vs)
  then show ?case by (simp add: decode_stream_append split: prod.splits)
qed

lemma streamChat_lines_append:
  "streamChat_lines parse (xs @ ys) =
     (let (a, fin) = streamChat_lines parse xs
      in if fin then (a, True)
         else (let (b, fin') = streamChat_lines parse ys in (a @ b, fin')))"
  by (induction xs) (auto simp: Let_def split: prod.splits option.splits)

lemma streamChat_read_lines:
  "0x0A \<notin> set buffer \<Longrightarrow>
   streamChat_read parse td buffer vs e =
     (let (ys, fin) = streamChat_lines parse (butlast (split_nl (buffer @ decode_all td vs)))
      in (ys, if fin then Returned else end_outcome e))"
proof (induction vs arbitrary: td buffer)
  case Nil
  then show ?case by (simp add: end_outcome_def split_nl_no_nl)
next
  case (Cons v vs)
  obtain td' decoded where dec: "decode_stream td v = (td', decoded)"
    by (cases "decode_stream td v")
  let ?lines = "split_nl (buffer @ decoded)"
  have carry: "butlast (split_nl (buffer @ decoded @ decode_all td' vs)) =
                 butlast ?lines @ butlast (split_nl (last ?lines @ decode_all td' vs))"
    using butlast_split_nl_append [of "buffer @ decoded" "decode_all td' vs"] by simp
  have ih: "streamChat_read parse td' (last ?lines) vs e =
              (let (ys, fin) = streamChat_lines parse
                     (butlast (split_nl (last ?lines @ decode_all td' vs)))
               in (ys, if fin then Returned else end_outcome e))"
    by (rule Cons.IH) (rule last_split_nl_no_nl)
  show ?case
    by (simp add: dec carry ih streamChat_lines_append split: prod.splits)
qed

lemma handleSend_lines_append:
  "handleSend_lines parse clock cx (xs @ ys) acc =
     handleSend_lines parse clock cx ys (handleSend_lines parse clock cx xs acc)"
  by (induction xs arbitrary: acc) (auto simp: Let_def split: option.splits)

lemma handleSend_read_lines:
  "0x0A \<notin> set buffer \<Longrightarrow>
   handleSend_read parse clock cx td buffer vs acc =
     handleSend_lines parse clock cx (butlast (split_nl (buffer @ decode_all td vs))) acc"
proof (induction vs arbitrary: td buffer acc)
  case Nil
  then show ?case by (simp add: split_nl_no_nl)
next
  case (Cons v vs)
  obtain td' decoded where dec: "decode_stream td v = (td', decoded)"
    by (cases "decode_stream td v")
  let ?lines = "split_nl (buffer @ decoded)"
  have carry: "butlast (split_nl (buffer @ decoded @ decode_all td' vs)) =
                 butlast ?lines @ butlast (split_nl (last ?lines @ decode_all td' vs))"
    using butlast_split_nl_append [of "buffer @ decoded" "decode_all td' vs"] by simp
  show ?case
    by (simp add: dec carry handleSend_lines_append Cons.IH [OF last_split_nl_no_nl] Let_def)
qed

text \<open>The loops of \<open>handleSend\<close> apply exactly the deltas listed above, in order.\<close>

lemma handleSend_lines_fold:
  "handleSend_lines parse clock cx ls acc =
     fold (apply_delta clock cx) (handleSend_deltas parse ls) acc"
  by (induction ls arbitrary: acc) (auto simp: Let_def split: option.splits)

lemma handleSend_read_fold:
  "handleSend_read parse clock cx td buffer vs acc =
     fold (apply_delta clock cx) (handleSend_read_deltas parse td buffer vs) acc"
  by (induction vs arbitrary: td buffer acc)
     (auto simp: Let_def handleSend_lines_fold split: prod.splits)

lemma handleSend_deltas_append:
  "handleSend_deltas parse (xs @ ys) = handleSend_deltas parse xs @ handleSend_deltas parse ys"
  by (induction xs) (auto simp: Let_def split: option.splits)

lemma handleSend_read_deltas_lines:
  "0x0A \<notin> set buffer \<Longrightarrow>
   handleSend_read_deltas parse td buffer vs =
     handleSend_deltas parse (butlast (split_nl (buffer @ decode_all td vs)))"
proof (induction vs arbitrary: td buffer)
  case Nil
  then show ?case by (simp add: split_nl_no_nl)
next
  case (Cons v vs)
  obtain td' decoded where dec: "decode_stream td v = (td', decoded)"
    by (cases "decode_stream td v")
  let ?lines = "split_nl (buffer @ decoded)"
  have carry: "butlast (split_nl (buffer @ decoded @ decode_all td' vs)) =
                 butlast ?lines @ butlast (split_nl (last ?lines @ decode_all td' vs))"
    using butlast_split_nl_append [of "buffer @ decoded" "decode_all td' vs"] by simp
  show ?case
    by (simp add: dec carry handleSend_deltas_append Cons.IH [OF last_split_nl_no_nl] Let_def)
qed

text \<open>One chunk holding whole lines of ASCII text: the loops run over these lines.\<close>

lemma sse_bytes_small: "list_all ascii_line ls \<Longrightarrow> list_all (\<lambda>b. b \<le> 0x7F) (sse_bytes ls)"
  by (induction ls) (simp_all add: sse_bytes_def ascii_bytes_small)

lemma sse_text:
  "list_all ascii_line ls \<Longrightarrow>
   snd (decode_stream new_TextDecoder (sse_bytes ls)) = concat (map (\<lambda>l. lit l @ [0x0A]) ls)"
proof -
  assume a: "list_all ascii_line ls"
  have "map ucast (sse_bytes xs) = concat (map (\<lambda>l. lit l @ [0x0A]) xs)" for xs
    by (induction xs) (simp_all add: sse_bytes_def ucast_ascii_bytes)
  then show ?thesis
    by (simp add: new_TextDecoder_def decode_stream_ascii [OF sse_bytes_small [OF a]])
qed

lemma split_sse:
  "list_all ascii_line ls \<Longrightarrow>
   split_nl (concat (map (\<lambda>l. lit l @ [0x0A]) ls)) = map lit ls @ [[]]"
  by (induction ls) (simp_all add: split_nl_line nl_free)

lemma decode_all_sse:
  "list_all ascii_line ls \<Longrightarrow>
   butlast (split_nl (decode_all new_TextDecoder [sse_bytes ls])) = map lit ls"
proof -
  assume a: "list_all ascii_line ls"
  obtain td t where d: "decode_stream new_TextDecoder (sse_bytes ls) = (td, t)"
    by (cases "decode_stream new_TextDecoder (sse_bytes ls)")
  with sse_text [OF a] have "t = concat (map (\<lambda>l. lit l @ [0x0A]) ls)" by simp
  with d show ?thesis by (simp add: split_sse [OF a])
qed

lemma handleSend_read_deltas_sse:
  "list_all ascii_line ls \<Longrightarrow>
   handleSend_read_deltas parse new_TextDecoder [] [sse_bytes ls] =
     handleSend_deltas parse (map lit ls)"
  by (simp only: handleSend_read_deltas_lines [of "[]", simplified] decode_all_sse)

lemma handleSend_read_sse:
  "list_all ascii_line ls \<Longrightarrow>
   handleSend_read parse clock cx new_TextDecoder [] [sse_bytes ls] acc =
     handleSend_lines parse clock cx (map lit ls) acc"
  by (simp only: handleSend_read_lines [of "[]", simplified] decode_all_sse)

lemma streamChat_read_sse:
  "list_all ascii_line ls \<Longrightarrow>
   streamChat_read parse new_TextDecoder [] [sse_bytes ls] e =
     (let (ys, fin) = streamChat_lines parse (map lit ls)
      in (ys, if fin then Returned else end_outcome e))"
  by (simp only: streamChat_read_lines [of "[]", simplified] decode_all_sse Let_def)

section \<open>Splitting the payload into chunks\<close>

text \<open>
  The decoder on chunks that end inside a UTF-8 sequence: U+65B0 and U+1F600 come out
  whole, the second as a surrogate pair. A leading byte order mark is dropped, and
  malformed bytes become U+FFFD.
\<close>

lemma decode_split_codepoint:
  "decode_all new_TextDecoder [[0xE6], [0x96, 0xB0, 0xF0, 0x9F], [0x98, 0x80]] =
     [0x65B0, 0xD83D, 0xDE00]
   \<and> decode_all new_TextDecoder [[0xE6, 0x96, 0xB0, 0xF0, 0x9F, 0x98, 0x80]] =
     [0x65B0, 0xD83D, 0xDE00]"
  by (simp add: decode_stream_def new_TextDecoder_def utf8_init_def utf8_handler_def
        utf8_lead_def serialize_def utf16_def)

lemma decode_malformed:
  "decode_all new_TextDecoder [[0xEF, 0xBB, 0xBF, 0x41, 0xC0], [0x80, 0xE0, 0x41]] =
     [0x41, 0xFFFD, 0xFFFD, 0xFFFD, 0x41]"
  by (simp add: decode_stream_def new_TextDecoder_def utf8_init_def utf8_handler_def
        utf8_lead_def serialize_def utf16_def)

text \<open>
  Claim C1. However the bytes of a payload are cut into chunks, also inside a UTF-8
  sequence or inside a line, the loop that decodes each chunk with the carried decoder
  state, appends it to the buffer, splits at line feeds and holds back the last
  fragment gives what it gives on the whole payload read as one chunk: the generator
  \<open>streamChat\<close> yields the same values in the same order and ends the same way, and
  the loop of \<open>handleSend\<close> applies the same deltas in the same order and leaves the
  same accumulator and state.
\<close>

theorem chunk_split_invariance:
  "streamChat_read parse new_TextDecoder [] vs e =
     streamChat_read parse new_TextDecoder [] [concat vs] e
   \<and> handleSend_read_deltas parse new_TextDecoder [] vs =
       handleSend_read_deltas parse new_TextDecoder [] [concat vs]
   \<and> handleSend_read parse clock cx new_TextDecoder [] vs acc =
       handleSend_read parse clock cx new_TextDecoder [] [concat vs] acc"
proof -
  have all: "decode_all new_TextDecoder [concat vs] = decode_all new_TextDecoder vs"
    by (simp add: decode_all_concat split: prod.splits)
  have "streamChat_read parse new_TextDecoder [] vs e =
          streamChat_read parse new_TextDecoder [] [concat vs] e"
    by (simp only: streamChat_read_lines [of "[]", simplified] all)
  moreover have "handleSend_read_deltas parse new_TextDecoder [] vs =
          handleSend_read_deltas parse new_TextDecoder [] [concat vs]"
    by (simp only: handleSend_read_deltas_lines [of "[]", simplified] all)
  moreover have "handleSend_read parse clock cx new_TextDecoder [] vs acc =
          handleSend_read parse clock cx new_TextDecoder [] [concat vs] acc"
    by (simp only: handleSend_read_lines [of "[]", simplified] all)
  ultimately show ?thesis by blast
qed

section \<open>The state during a send\<close>

lemma update_entries_ids:
  "map conv_id (fst (update_entries clock i ms k cs)) = map conv_id cs"
  by (induction cs arbitrary: k) (simp_all add: case_prod_beta Let_def)

lemma updateConversation_frame:
  "messages (updateConversation clock i ms st) = messages st"
  "error (updateConversation clock i ms st) = error st"
  "isLoading (updateConversation clock i ms st) = isLoading st"
  "input (updateConversation clock i ms st) = input st"
  "currentConversationId (updateConversation clock i ms st) = currentConversationId st"
  "modelSettings (updateConversation clock i ms st) = modelSettings st"
  by (simp_all add: updateConversation_def split: prod.splits)

lemma apply_delta_fst: "fst (apply_delta clock cx s acc) = fst acc @ s"
  by (simp add: apply_delta_def Let_def)

lemma apply_delta_messages:
  "messages (snd (apply_delta clock cx s acc)) =
     currentMessages cx @ [(assistantMessage cx)\<lparr>content := fst acc @ s\<rparr>]"
  by (simp add: apply_delta_def Let_def updateConversation_frame)

lemma apply_delta_frame:
  "error (snd (apply_delta clock cx c acc)) = error (snd acc)"
  "isLoading (snd (apply_delta clock cx c acc)) = isLoading (snd acc)"
  "input (snd (apply_delta clock cx c acc)) = input (snd acc)"
  "currentConversationId (snd (apply_delta clock cx c acc)) = currentConversationId (snd acc)"
  "modelSettings (snd (apply_delta clock cx c acc)) = modelSettings (snd acc)"
  by (simp_all add: apply_delta_def Let_def updateConversation_frame)

lemma fold_apply_delta_fst:
  "fst (fold (apply_delta clock cx) ds acc) = fst acc @ concat ds"
  by (induction ds arbitrary: acc) (simp_all add: apply_delta_fst)

lemma fold_apply_delta_messages:
  "messages (snd (fold (apply_delta clock cx) ds acc)) =
     (if ds = [] then messages (snd acc)
      else currentMessages cx
             @ [(assistantMessage cx)\<lparr>content := fst acc @ concat ds\<rparr>])"
proof (induction ds arbitrary: acc)
  case Nil
  show ?case by simp
next
  case (Cons d ds)
  show ?case
    by (simp add: Cons.IH apply_delta_fst apply_delta_messages)
qed

lemma fold_apply_delta_frame:
  "error (snd (fold (apply_delta clock cx) ds acc)) = error (snd acc)"
  "isLoading (snd (fold (apply_delta clock cx) ds acc)) = isLoading (snd acc)"
  "input (snd (fold (apply_delta clock cx) ds acc)) = input (snd acc)"
  "currentConversationId (snd (fold (apply_delta clock cx) ds acc)) = currentConversationId (snd acc)"
  "modelSettings (snd (fold (apply_delta clock cx) ds acc)) = modelSettings (snd acc)"
  by (induction ds arbitrary: acc; simp add: apply_delta_frame)+

lemma handleSend_try_thrown:
  "snd (handleSend_try parse clock cx res st) = thrown_by res"
  by (simp add: handleSend_try_def thrown_by_def Let_def
        split: fetch_result.splits sum.splits option.splits)

lemma handleSend_try_state:
  "fst (handleSend_try parse clock cx res st) =
     snd (fold (apply_delta clock cx) (applied_deltas parse res) ([], st))"
  by (simp add: handleSend_try_def applied_deltas_def Let_def handleSend_read_fold
        split: fetch_result.splits sum.splits option.splits)

lemma handleSend_begin_messages:
  "messages (fst (handleSend_begin clock st)) =
     messages st @ [userMessage (snd (handleSend_begin clock st)),
                    assistantMessage (snd (handleSend_begin clock st))]"
  by (simp add: handleSend_begin_def Date_now_def Let_def split: prod.splits option.splits)

lemma handleSend_begin_context:
  "currentMessages (snd (handleSend_begin clock st)) =
     messages st @ [userMessage (snd (handleSend_begin clock st))]"
  "content (assistantMessage (snd (handleSend_begin clock st))) = []"
  "role (assistantMessage (snd (handleSend_begin clock st))) = Assistant"
  "content (userMessage (snd (handleSend_begin clock st))) = trim (input st)"
  "role (userMessage (snd (handleSend_begin clock st))) = User"
  by (simp_all add: handleSend_begin_def Date_now_def Let_def split: prod.splits option.splits)



text \<open>A run of \<open>handleSend\<close> that passes both guards: the state it ends in and the
  request it issues.\<close>

lemma handleSend_run:
  assumes "trim (input st) \<noteq> []" and "\<not> isLoading st"
    and "name (modelSettings st) \<noteq> []" and "baseUrl (modelSettings st) \<noteq> []"
    and "apiKey (modelSettings st) \<noteq> []"
    and "cx = snd (handleSend_begin clock st)"
    and "res = fetch (completion_request (modelSettings st) (currentMessages cx))"
    and "st2 = snd (fold (apply_delta clock cx) (applied_deltas parse res)
                 ([], fst (handleSend_begin clock st)))"
  shows "handleSend parse clock fetch st =
           ((case thrown_by res of
               None \<Rightarrow> st2
             | Some e \<Rightarrow> handleSend_catch clock (messages st) cx e st2)\<lparr>isLoading := False\<rparr>,
            [completion_request (modelSettings st) (currentMessages cx)])"
proof -
  obtain st1 where b: "handleSend_begin clock st = (st1, cx)"
    using assms(6) by (cases "handleSend_begin clock st") simp
  have "handleSend_try parse clock cx res st1 = (st2, thrown_by res)"
    using handleSend_try_thrown [of parse clock cx res st1]
      handleSend_try_state [of parse clock cx res st1] assms(8) b
    by (cases "handleSend_try parse clock cx res st1") simp
  then show ?thesis
    using assms(1-5) b assms(7) by (simp add: handleSend_def Let_def)
qed

lemma streamed_messages:
  assumes "cx = snd (handleSend_begin clock st)"
  shows "messages (snd (fold (apply_delta clock cx) ds ([], fst (handleSend_begin clock st)))) =
           messages st @ [userMessage cx,
             (assistantMessage cx)\<lparr>content := concat ds\<rparr>]"
proof -
  have "(assistantMessage cx)\<lparr>content := []\<rparr> = assistantMessage cx"
    using handleSend_begin_context(2) [of clock st] assms by simp
  then show ?thesis
    using handleSend_begin_messages [of clock st] handleSend_begin_context(1) [of clock st] assms
    by (simp add: fold_apply_delta_messages)
qed

text \<open>The sample stream: two frames and the sentinel, in one chunk.\<close>

lemma example_lines_ascii: "list_all ascii_line [hi_frame, there_frame, done_frame]"
  by (simp add: hi_frame_def there_frame_def done_frame_def ascii_line_def)

lemma example_deltas:
  "handleSend_deltas example_parse (map lit [hi_frame, there_frame, done_frame]) =
     [lit ''Hi'', lit '' there'']"
  by (simp add: hi_frame_def there_frame_def done_frame_def startsWith_def slice_from_def lit_def
      example_parse_def frame_prefix_def frame_suffix_def handleSend_content_def content_object_def
      member_def index0_def opt_member_def truthy_def)

lemma example_trim: "trim (input example_state) = lit ''hello''"
  by (simp add: example_state_def trim_def lit_def is_space_def)

lemma example_nonblank: "trim (input example_state) \<noteq> []"
  by (simp add: example_trim lit_def)

lemma example_guards:
  "name (modelSettings example_state) \<noteq> []"
  "baseUrl (modelSettings example_state) \<noteq> []"
  "apiKey (modelSettings example_state) \<noteq> []"
  "\<not> isLoading example_state"
  "messages example_state = []"
  by (simp_all add: example_state_def example_settings_def lit_def)

text \<open>
  A content that cannot be converted to a string, such as an object with an own
  property \<open>toString\<close>, is skipped like a malformed frame: nothing is appended and no
  state is set.
\<close>

lemma to_string_examples:
  "to_string (JObj [(lit ''toString'', JNum (lit ''1''))]) = None
   \<and> to_string (JObj [(lit ''a'', JNum (lit ''1''))]) = Some (lit ''[object Object]'')
   \<and> to_string (JArr [JStr (lit ''a''), JNull, JObj []]) = Some (lit ''a,,[object Object]'')
   \<and> to_string (JArr [JObj [(lit ''toString'', JNull)]]) = None"
  by (simp add: lit_def)

lemma unconvertible_content_skipped:
  assumes "startsWith line (lit ''data: '')" and "slice_from 6 line \<noteq> lit ''[DONE]''"
    and "handleSend_content parse (slice_from 6 line) = Some c" and "to_string c = None"
  shows "handleSend_lines parse clock cx (line # rest) acc = handleSend_lines parse clock cx rest acc"
    and "handleSend_deltas parse (line # rest) = handleSend_deltas parse rest"
  using assms by simp_all

section \<open>Accumulating the deltas\<close>

text \<open>
  Claim C3. In a send that succeeds (both guards passed, the response is ok and has a
  body, the reader ends with \<open>done\<close>), the loop applies the deltas, the strings it
  appends to the accumulator, in the order in which it meets them; with each one the
  displayed messages become the history followed by the assistant message holding the
  whole accumulator; and the content of the assistant message at the end is the
  concatenation of all deltas, in order.
\<close>

theorem send_accumulates_deltas:
  assumes "trim (input st) \<noteq> []" and "\<not> isLoading st"
    and "name (modelSettings st) \<noteq> []" and "baseUrl (modelSettings st) \<noteq> []"
    and "apiKey (modelSettings st) \<noteq> []"
    and "cx = snd (handleSend_begin clock st)"
    and "res = fetch (completion_request (modelSettings st) (currentMessages cx))"
    and "thrown_by res = None"
  shows "handleSend_read parse clock cx td buffer vs acc =
           fold (apply_delta clock cx) (handleSend_read_deltas parse td buffer vs) acc
         \<and> fst (apply_delta clock cx s acc) = fst acc @ s
         \<and> messages (snd (apply_delta clock cx s acc)) =
             currentMessages cx @ [(assistantMessage cx)\<lparr>content := fst acc @ s\<rparr>]
         \<and> messages (fst (handleSend parse clock fetch st)) =
             messages st @ [userMessage cx,
               (assistantMessage cx)\<lparr>content := concat (applied_deltas parse res)\<rparr>]"
  using handleSend_run [where fetch = fetch and parse = parse, OF assms(1-7) refl] assms(8)
  by (simp add: handleSend_read_fold apply_delta_fst apply_delta_messages
        streamed_messages [OF assms(6)])


text \<open>The frames \<open>Hi\<close> and \<open> there\<close> followed by the sentinel give \<open>Hi there\<close>.\<close>

theorem send_accumulates_deltas_witness:
  "map content (messages (fst (handleSend example_parse example_clock hi_there_response
      example_state)))
   = [lit ''hello'', lit ''Hi there'']"
proof -
  let ?fetch = hi_there_response
  let ?cx = "snd (handleSend_begin example_clock example_state)"
  let ?res = "?fetch (completion_request (modelSettings example_state) (currentMessages ?cx))"
  have "handleSend_read_deltas example_parse new_TextDecoder []
          [sse_bytes [hi_frame, there_frame, done_frame]] = [lit ''Hi'', lit '' there'']"
    by (simp only: handleSend_read_deltas_sse [OF example_lines_ascii] example_deltas)
  then have deltas: "applied_deltas example_parse ?res = [lit ''Hi'', lit '' there'']"
    by (simp add: applied_deltas_def hi_there_response_def ok_response_def
          del: handleSend_read_deltas.simps)
  have ok: "thrown_by ?res = None"
    by (simp add: thrown_by_def hi_there_response_def ok_response_def)
  have "messages (fst (handleSend example_parse example_clock ?fetch example_state)) =
          messages example_state @ [userMessage ?cx,
            (assistantMessage ?cx)\<lparr>content :=
               concat (applied_deltas example_parse ?res)\<rparr>]"
    using send_accumulates_deltas [where st = example_state and clock = example_clock
        and parse = example_parse and fetch = ?fetch and cx = ?cx and res = ?res,
        OF example_nonblank example_guards(4) example_guards(1) example_guards(2)
          example_guards(3) refl refl ok]
    by blast
  then show ?thesis
    by (simp add: deltas example_guards(5) handleSend_begin_context(4) example_trim lit_def)
qed

section \<open>The sentinel\<close>

text \<open>\<open>streamChat\<close> leaves at the sentinel: what follows it, in the same chunk or in
  later ones, changes nothing, and the generator returns rather than throws.\<close>

lemma done_line: "startsWith (lit done_frame) (lit ''data: '') \<and> slice_from 6 (lit done_frame) = lit ''[DONE]''"
  by (simp add: done_frame_def startsWith_def slice_from_def lit_def)

lemma streamChat_lines_DONE:
  "streamChat_lines parse (lit done_frame # post) = ([], True)"
  using done_line by simp

lemma streamChat_stops_at_DONE:
  "streamChat_lines parse (pre @ lit done_frame # post) = streamChat_lines parse (pre @ [lit done_frame])"
  by (simp add: streamChat_lines_append streamChat_lines_DONE split: prod.splits
        del: streamChat_lines.simps)

lemma streamChat_read_returns_at_DONE:
  assumes "streamChat_lines parse (butlast (split_nl (buffer @ snd (decode_stream td v)))) = (ys, True)"
  shows "streamChat_read parse td buffer (v # vs) e = (ys, Returned)"
  using assms by (cases "decode_stream td v") (simp add: Let_def)

lemma late_lines_ascii: "list_all ascii_line [done_frame, hi_frame]"
  by (simp add: hi_frame_def done_frame_def ascii_line_def)

lemma late_deltas:
  "handleSend_deltas example_parse (map lit [done_frame, hi_frame]) = [lit ''Hi'']"
  by (simp add: hi_frame_def done_frame_def startsWith_def slice_from_def lit_def
      example_parse_def frame_prefix_def frame_suffix_def handleSend_content_def content_object_def
      member_def index0_def opt_member_def truthy_def)

text \<open>
  Claim C2. Once a complete line \<open>data: [DONE]\<close> is processed the sequence ends, and
  no delta of a later line is yielded or applied. This holds for the generator
  \<open>streamChat\<close> and fails for the loop of \<open>handleSend\<close>, which skips the sentinel with
  \<open>continue\<close> and reads on: for a chunk holding the sentinel and then a frame with the
  content \<open>Hi\<close>, \<open>streamChat\<close> yields nothing and returns, while \<open>handleSend\<close> applies
  the delta and shows \<open>Hi\<close> as the answer.
\<close>

theorem handleSend_applies_delta_after_DONE:
  "handleSend_read_deltas example_parse new_TextDecoder [] [sse_bytes [done_frame, hi_frame]]
     = [lit ''Hi'']
   \<and> streamChat_read example_parse new_TextDecoder [] [sse_bytes [done_frame, hi_frame]] EndOfStream
     = ([], Returned)
   \<and> map content (messages (fst (handleSend example_parse example_clock late_response
         example_state)))
     = [lit ''hello'', lit ''Hi'']"
proof -
  let ?fetch = late_response
  let ?cx = "snd (handleSend_begin example_clock example_state)"
  let ?res = "?fetch (completion_request (modelSettings example_state) (currentMessages ?cx))"
  have d: "handleSend_read_deltas example_parse new_TextDecoder []
             [sse_bytes [done_frame, hi_frame]] = [lit ''Hi'']"
    by (simp only: handleSend_read_deltas_sse [OF late_lines_ascii] late_deltas)
  have s: "streamChat_read example_parse new_TextDecoder [] [sse_bytes [done_frame, hi_frame]]
             EndOfStream = ([], Returned)"
    by (simp only: streamChat_read_sse [OF late_lines_ascii] list.map streamChat_lines_DONE)
       simp
  have deltas: "applied_deltas example_parse ?res = [lit ''Hi'']"
    using d by (simp add: applied_deltas_def late_response_def ok_response_def
                  del: handleSend_read_deltas.simps)
  have ok: "thrown_by ?res = None"
    by (simp add: thrown_by_def late_response_def ok_response_def)
  have "handleSend example_parse example_clock ?fetch example_state =
          ((snd (fold (apply_delta example_clock ?cx) (applied_deltas example_parse ?res)
                  ([], fst (handleSend_begin example_clock example_state))))\<lparr>isLoading := False\<rparr>,
           [completion_request (modelSettings example_state) (currentMessages ?cx)])"
    using handleSend_run [where st = example_state and clock = example_clock
        and parse = example_parse and fetch = ?fetch and cx = ?cx and res = ?res,
        OF example_nonblank example_guards(4) example_guards(1) example_guards(2)
          example_guards(3) refl refl refl] ok
    by simp
  then have "messages (fst (handleSend example_parse example_clock ?fetch example_state)) =
          messages example_state @ [userMessage ?cx,
            (assistantMessage ?cx)\<lparr>content :=
               concat (applied_deltas example_parse ?res)\<rparr>]"
    by (simp add: streamed_messages [OF refl])
  then have "map content (messages (fst (handleSend example_parse example_clock ?fetch example_state)))
        = [lit ''hello'', lit ''Hi'']"
    by (simp add: deltas example_guards(5) handleSend_begin_context(4) example_trim)
  with d s show ?thesis by blast
qed

section \<open>Starting a send\<close>

lemma updateConversation_ids:
  "map conv_id (conversations (updateConversation clock i ms st)) = map conv_id (conversations st)"
  using update_entries_ids [of clock i ms "clock_reads st" "conversations st"]
  by (cases "update_entries clock i ms (clock_reads st) (conversations st)")
     (simp add: updateConversation_def)

lemma fold_apply_delta_ids:
  "map conv_id (conversations (snd (fold (apply_delta clock cx) ds acc))) =
     map conv_id (conversations (snd acc))"
  by (induction ds arbitrary: acc) (simp_all add: apply_delta_def Let_def updateConversation_ids)

lemma handleSend_catch_ids:
  "map conv_id (conversations (handleSend_catch clock msgs cx e st)) = map conv_id (conversations st)"
  by (simp add: handleSend_catch_def updateConversation_ids)

lemma handleSend_begin_new:
  assumes "currentConversationId st = None" and "k = clock_reads st" and "t = trim (input st)"
  shows "handleSend_begin clock st =
           (st\<lparr>conversations :=
                 \<lparr>conv_id = show_int (clock (k + 1)), title = slice0 15 t, conv_messages = [],
                  conv_timestamp = clock (k + 2), lastMessage = Some (slice0 30 t)\<rparr>
                 # conversations st,
               currentConversationId := Some (show_int (clock (k + 1))),
               messages := messages st @
                 [\<lparr>role = User, content = t, timestamp = clock k\<rparr>,
                  \<lparr>role = Assistant, content = [], timestamp = clock (k + 3)\<rparr>],
               input := [], isLoading := True, error := None, clock_reads := k + 4\<rparr>,
            \<lparr>userMessage = \<lparr>role = User, content = t, timestamp = clock k\<rparr>,
             conversationId = show_int (clock (k + 1)),
             assistantMessage = \<lparr>role = Assistant, content = [], timestamp = clock (k + 3)\<rparr>,
             currentMessages = messages st @ [\<lparr>role = User, content = t, timestamp = clock k\<rparr>]\<rparr>)"
  using assms by (simp add: handleSend_begin_def Date_now_def Let_def eval_nat_numeral)

text \<open>
  Claim C4. An input is sent while no request is in flight: while one is, the
  component disables the input field and the button, and it has cleared the input.
  When \<open>handleSend\<close> runs so, with input that is not blank, no current conversation
  and all three settings filled in, then by the time it issues its request it has put
  exactly one new conversation in front of the list, whose id is the decimal rendering
  of the time read for it, whose title
  is the first 15 code units of the trimmed input and whose preview is the first 30;
  it has appended the user message and then an assistant message with empty content;
  and it issues exactly one request, a POST to the base URL followed by
  \<open>/chat/completions\<close>, with \<open>stream\<close> set and with the history and the user message
  as \<open>messages\<close>, each reduced to role and content, the placeholder left out. At the end
  of the run the list still has that one conversation more.
\<close>

theorem send_creates_conversation:
  assumes "trim (input st) \<noteq> []" and "\<not> isLoading st"
    and "currentConversationId st = None"
    and "name (modelSettings st) \<noteq> []" and "baseUrl (modelSettings st) \<noteq> []"
    and "apiKey (modelSettings st) \<noteq> []"
    and "k = clock_reads st" and "t = trim (input st)"
  shows "conversations (fst (handleSend_begin clock st)) =
           \<lparr>conv_id = show_int (clock (k + 1)), title = slice0 15 t, conv_messages = [],
            conv_timestamp = clock (k + 2), lastMessage = Some (slice0 30 t)\<rparr>
           # conversations st
         \<and> currentConversationId (fst (handleSend_begin clock st)) = Some (show_int (clock (k + 1)))
         \<and> messages (fst (handleSend_begin clock st)) =
             messages st @ [\<lparr>role = User, content = t, timestamp = clock k\<rparr>,
                            \<lparr>role = Assistant, content = [], timestamp = clock (k + 3)\<rparr>]
         \<and> snd (handleSend parse clock fetch st) =
             [\<lparr>url = baseUrl (modelSettings st) @ lit ''/chat/completions'',
               http_method = lit ''POST'',
               headers = [(lit ''Content-Type'', lit ''application/json''),
                          (lit ''Authorization'', lit ''Bearer '' @ apiKey (modelSettings st))],
               req_body = \<lparr>model = name (modelSettings st),
                           body_messages = map (\<lambda>m. (role m, content m)) (messages st) @ [(User, t)],
                           stream = True\<rparr>\<rparr>]
         \<and> map conv_id (conversations (fst (handleSend parse clock fetch st))) =
             show_int (clock (k + 1)) # map conv_id (conversations st)"
proof -
  note b = handleSend_begin_new [OF assms(3) assms(7) assms(8), of clock]
  let ?cx = "snd (handleSend_begin clock st)"
  let ?res = "fetch (completion_request (modelSettings st) (currentMessages ?cx))"
  note run = handleSend_run [where fetch = fetch and parse = parse and clock = clock,
      OF assms(1) assms(2) assms(4) assms(5) assms(6) refl refl refl]
  have req: "snd (handleSend parse clock fetch st) =
               [completion_request (modelSettings st) (currentMessages ?cx)]"
    by (simp add: run)
  have ids: "map conv_id (conversations (fst (handleSend parse clock fetch st))) =
               map conv_id (conversations (fst (handleSend_begin clock st)))"
    by (simp add: run fold_apply_delta_ids handleSend_catch_ids split: option.splits)
  show ?thesis
    by (simp add: req ids b completion_request_def assms(4))
qed

theorem send_creates_conversation_witness:
  "conversations (fst (handleSend_begin example_clock example_state)) =
     [\<lparr>conv_id = lit ''1700000000001'', title = lit ''hello'', conv_messages = [],
       conv_timestamp = 1700000000002, lastMessage = Some (lit ''hello'')\<rparr>]
   \<and> messages (fst (handleSend_begin example_clock example_state)) =
       [\<lparr>role = User, content = lit ''hello'', timestamp = 1700000000000\<rparr>,
        \<lparr>role = Assistant, content = [], timestamp = 1700000000003\<rparr>]
   \<and> snd (handleSend example_parse example_clock empty_response example_state) =
       [\<lparr>url = lit ''https://x/v1/chat/completions'',
         http_method = lit ''POST'',
         headers = [(lit ''Content-Type'', lit ''application/json''),
                    (lit ''Authorization'', lit ''Bearer k'')],
         req_body = \<lparr>model = lit ''glm-4-flash'',
                     body_messages = [(User, lit ''hello'')],
                     stream = True\<rparr>\<rparr>]"
proof -
  have none: "currentConversationId example_state = None"
    and reads: "0 = clock_reads example_state"
    and convs: "conversations example_state = []"
    and settings: "modelSettings example_state = example_settings"
    by (simp_all add: example_state_def)
  note th = send_creates_conversation [where st = example_state and clock = example_clock
      and parse = example_parse and fetch = empty_response and k = 0 and t = "lit ''hello''",
      OF example_nonblank example_guards(4) none example_guards(1) example_guards(2)
        example_guards(3) reads example_trim [symmetric]]
  show ?thesis
    using th
    by (simp add: convs example_guards(5) settings example_settings_def example_clock_def
          lit_def show_int_def digits.simps slice0_def)
qed

section \<open>The guards of a send\<close>

text \<open>
  Claim C5, as amended. A send with blank input, or while a request is in flight,
  changes nothing and issues no request. A send with one of the three settings empty
  issues no request and appends no message; when moreover the input is not blank and
  no request is in flight, it sets the error banner to the message that asks for the
  settings, and changes nothing else.
\<close>

theorem send_guards:
  "(trim (input st) = [] \<or> isLoading st \<longrightarrow> handleSend parse clock fetch st = (st, []))
   \<and> (name (modelSettings st) = [] \<or> baseUrl (modelSettings st) = []
        \<or> apiKey (modelSettings st) = [] \<longrightarrow>
        snd (handleSend parse clock fetch st) = []
        \<and> messages (fst (handleSend parse clock fetch st)) = messages st
        \<and> conversations (fst (handleSend parse clock fetch st)) = conversations st)
   \<and> (trim (input st) \<noteq> [] \<and> \<not> isLoading st
        \<and> (name (modelSettings st) = [] \<or> baseUrl (modelSettings st) = []
             \<or> apiKey (modelSettings st) = []) \<longrightarrow>
        handleSend parse clock fetch st = (st\<lparr>error := Some config_missing_message\<rparr>, []))"
  by (simp add: handleSend_def)

theorem send_guards_witness:
  "handleSend example_parse example_clock empty_response blank_state = (blank_state, [])
   \<and> handleSend example_parse example_clock empty_response busy_state = (busy_state, [])
   \<and> handleSend example_parse example_clock empty_response unconfigured_state =
       (unconfigured_state\<lparr>error := Some config_missing_message\<rparr>, [])"
proof -
  have blank: "trim (input blank_state) = []"
    by (simp add: blank_state_def example_state_def trim_def lit_def is_space_def)
  have busy: "isLoading busy_state"
    by (simp add: busy_state_def)
  have unconf: "trim (input unconfigured_state) \<noteq> []" "\<not> isLoading unconfigured_state"
      "name (modelSettings unconfigured_state) = []"
    using example_nonblank
    by (simp_all add: unconfigured_state_def example_state_def)
  show ?thesis
    using send_guards [of blank_state example_parse example_clock empty_response]
      send_guards [of busy_state example_parse example_clock empty_response]
      send_guards [of unconfigured_state example_parse example_clock empty_response]
      blank busy unconf
    by simp
qed


text \<open>
  As stated, for every state, the second half fails: on a first run, with nothing typed
  and no settings, the send returns at its first guard and no error is shown.
\<close>

theorem send_unconfigured_blank_counterexample:
  "name (modelSettings first_run_state) = []
   \<and> error (fst (handleSend example_parse example_clock empty_response first_run_state)) = None"
  by (simp add: handleSend_def first_run_state_def trim_def)

section \<open>Errors during a send\<close>

lemma update_entries_messages:
  "map conv_messages (fst (update_entries clock i ms k cs)) =
     map (\<lambda>c. if conv_id c = i then ms else conv_messages c) cs"
  by (induction cs arbitrary: k) (simp_all add: case_prod_beta Let_def)

lemma update_entries_same_id:
  assumes "c \<in> set (fst (update_entries clock i ms k cs))" and "conv_id c = i"
  shows "conv_messages c = ms"
proof -
  let ?r = "fst (update_entries clock i ms k cs)"
  from assms(1) obtain n where n: "n < length ?r" "?r ! n = c"
    by (auto simp: in_set_conv_nth)
  have len: "length ?r = length cs"
    using arg_cong [OF update_entries_ids [of clock i ms k cs], of length] by simp
  have "conv_id (?r ! n) = map conv_id ?r ! n"
    using n(1) by simp
  also have "\<dots> = map conv_id cs ! n"
    by (simp only: update_entries_ids)
  also have "\<dots> = conv_id (cs ! n)"
    using n(1) len by simp
  finally have "conv_id (?r ! n) = conv_id (cs ! n)" .
  moreover have "conv_messages (?r ! n) = (if conv_id (cs ! n) = i then ms else conv_messages (cs ! n))"
  proof -
    have "conv_messages (?r ! n) = map conv_messages ?r ! n"
      using n(1) by simp
    also have "\<dots> = map (\<lambda>c. if conv_id c = i then ms else conv_messages c) cs ! n"
      by (simp only: update_entries_messages)
    also have "\<dots> = (if conv_id (cs ! n) = i then ms else conv_messages (cs ! n))"
      using n(1) len by simp
    finally show ?thesis .
  qed
  ultimately show ?thesis using n(2) assms(2) by simp
qed

lemma updateConversation_messages:
  "c \<in> set (conversations (updateConversation clock i ms st)) \<Longrightarrow> conv_id c = i
     \<Longrightarrow> conv_messages c = ms"
  using update_entries_same_id [of c clock i ms "clock_reads st" "conversations st"]
  by (cases "update_entries clock i ms (clock_reads st) (conversations st)")
     (simp add: updateConversation_def)

lemma broken_lines_ascii: "list_all ascii_line [hi_frame]"
  by (simp add: hi_frame_def ascii_line_def)

lemma broken_line_deltas:
  "handleSend_deltas example_parse (map lit [hi_frame]) = [lit ''Hi'']"
  by (simp add: hi_frame_def startsWith_def slice_from_def lit_def
      example_parse_def frame_prefix_def frame_suffix_def handleSend_content_def content_object_def
      member_def index0_def opt_member_def truthy_def)

lemma broken_deltas: "applied_deltas example_parse (broken_response r) = [lit ''Hi'']"
proof -
  have "handleSend_read_deltas example_parse new_TextDecoder [] [sse_bytes [hi_frame]] =
          [lit ''Hi'']"
    by (simp only: handleSend_read_deltas_sse [OF broken_lines_ascii] broken_line_deltas)
  then show ?thesis
    by (simp add: applied_deltas_def broken_response_def ok_response_def
          del: handleSend_read_deltas.simps)
qed

lemma broken_thrown: "thrown_by (broken_response r) = Some (Error (lit ''network error''))"
  by (simp add: thrown_by_def broken_response_def ok_response_def)

lemma example_begin:
  "handleSend_begin example_clock example_state =
     (example_state\<lparr>conversations :=
         [\<lparr>conv_id = lit ''1700000000001'', title = lit ''hello'',
           conv_messages = [], conv_timestamp = 1700000000002,
           lastMessage = Some (lit ''hello'')\<rparr>],
        currentConversationId := Some (lit ''1700000000001''),
        messages := [\<lparr>role = User, content = lit ''hello'', timestamp = 1700000000000\<rparr>,
                     \<lparr>role = Assistant, content = [], timestamp = 1700000000003\<rparr>],
        input := [], isLoading := True, error := None, clock_reads := 4\<rparr>,
      \<lparr>userMessage = \<lparr>role = User, content = lit ''hello'', timestamp = 1700000000000\<rparr>,
       conversationId = lit ''1700000000001'',
       assistantMessage = \<lparr>role = Assistant, content = [], timestamp = 1700000000003\<rparr>,
       currentMessages = [\<lparr>role = User, content = lit ''hello'', timestamp = 1700000000000\<rparr>]\<rparr>)"
  by (simp add: handleSend_begin_def Date_now_def Let_def example_state_def example_clock_def
        trim_def is_space_def lit_def show_int_def digits.simps slice0_def)

lemma broken_run:
  "fst (handleSend example_parse example_clock broken_response example_state) =
     (handleSend_catch example_clock (messages example_state)
        (snd (handleSend_begin example_clock example_state)) (Error (lit ''network error''))
        (snd (apply_delta example_clock (snd (handleSend_begin example_clock example_state))
               (lit ''Hi'') ([], fst (handleSend_begin example_clock example_state)))))
     \<lparr>isLoading := False\<rparr>"
  using handleSend_run [where st = example_state and clock = example_clock
      and parse = example_parse and fetch = broken_response, 
      OF example_nonblank example_guards(4) example_guards(1) example_guards(2)
        example_guards(3) refl refl refl]
  by (simp add: broken_thrown broken_deltas)

lemma handleSend_begin_active:
  assumes "active_in_store st"
  shows "conversationId (snd (handleSend_begin clock st))
           \<in> set (map conv_id (conversations (fst (handleSend_begin clock st))))"
proof (cases "currentConversationId st")
  case None
  then show ?thesis
    by (simp add: handleSend_begin_def Date_now_def Let_def)
next
  case (Some i)
  show ?thesis
  proof (cases "i = []")
    case True
    with Some show ?thesis
      by (simp add: handleSend_begin_def Date_now_def Let_def)
  next
    case False
    with Some assms show ?thesis
      by (simp add: handleSend_begin_def Date_now_def Let_def active_in_store_def)
  qed
qed

text \<open>
  Claim C6, as amended. When the \<open>try\<close> block of a send throws (the \<open>fetch\<close> rejects,
  the status is not ok, the response has no body, or a read fails), the run ends
  there: \<open>error\<close> holds the message of the error, which the banner shows unless it is
  empty, \<open>isLoading\<close> is cleared and the one request stays the only one. The displayed
  messages keep the user message and the assistant message with whatever deltas had
  been applied. In the list of conversations no entry is added or removed. When the
  conversation of the send is an entry of the list, as it is when the send created it
  or it was chosen from the list, the list has an entry with its id, and every such
  entry holds the history followed by the user message, and no assistant message.
\<close>

theorem send_error_keeps_user_message:
  assumes "trim (input st) \<noteq> []" and "\<not> isLoading st"
    and "name (modelSettings st) \<noteq> []" and "baseUrl (modelSettings st) \<noteq> []"
    and "apiKey (modelSettings st) \<noteq> []"
    and "cx = snd (handleSend_begin clock st)"
    and "res = fetch (completion_request (modelSettings st) (currentMessages cx))"
    and "thrown_by res = Some e"
    and "final = fst (handleSend parse clock fetch st)"
    and "active_in_store st"
  shows "error final = Some (message_or e send_failed_message)
         \<and> banner final =
             (if message_or e send_failed_message = [] then None
              else Some (message_or e send_failed_message))
         \<and> \<not> isLoading final
         \<and> snd (handleSend parse clock fetch st) =
             [completion_request (modelSettings st) (currentMessages cx)]
         \<and> messages final =
             messages st @ [userMessage cx,
               (assistantMessage cx)\<lparr>content := concat (applied_deltas parse res)\<rparr>]
         \<and> map conv_id (conversations final) =
             map conv_id (conversations (fst (handleSend_begin clock st)))
         \<and> conversationId cx \<in> set (map conv_id (conversations final))
         \<and> (\<forall>c \<in> set (conversations final).
               conv_id c = conversationId cx \<longrightarrow> conv_messages c = messages st @ [userMessage cx])"
proof -
  let ?st2 = "snd (fold (apply_delta clock cx) (applied_deltas parse res)
                 ([], fst (handleSend_begin clock st)))"
  let ?caught = "handleSend_catch clock (messages st) cx e ?st2"
  have run: "handleSend parse clock fetch st =
               (?caught\<lparr>isLoading := False\<rparr>,
                [completion_request (modelSettings st) (currentMessages cx)])"
    using handleSend_run [where fetch = fetch and parse = parse, OF assms(1-7) refl] assms(8)
    by simp
  have final: "final = ?caught\<lparr>isLoading := False\<rparr>"
    using run assms(9) by simp
  have err: "error ?caught = Some (message_or e send_failed_message)"
    by (simp add: handleSend_catch_def updateConversation_frame)
  have msgs: "messages ?caught = messages st @ [userMessage cx,
               (assistantMessage cx)\<lparr>content := concat (applied_deltas parse res)\<rparr>]"
    by (simp add: handleSend_catch_def updateConversation_frame streamed_messages [OF assms(6)])
  have ids: "map conv_id (conversations ?caught) =
               map conv_id (conversations (fst (handleSend_begin clock st)))"
    by (simp add: handleSend_catch_ids fold_apply_delta_ids)
  have kept: "conv_messages c = messages st @ [userMessage cx]"
    if "c \<in> set (conversations ?caught)" and "conv_id c = conversationId cx" for c
    using that unfolding handleSend_catch_def by (rule updateConversation_messages)
  have ban: "banner (?caught\<lparr>isLoading := False\<rparr>) =
               (if message_or e send_failed_message = [] then None
                else Some (message_or e send_failed_message))"
    by (simp add: banner_def err)
  have present: "conversationId cx \<in> set (map conv_id (conversations ?caught))"
  proof -
    have "conversationId cx \<in> set (map conv_id (conversations (fst (handleSend_begin clock st))))"
      using handleSend_begin_active [OF assms(10), of clock] assms(6) by simp
    then show ?thesis by (simp only: ids)
  qed
  show ?thesis
    using err ban msgs ids present kept by (simp add: final run)
qed


lemma example_active: "active_in_store example_state"
  by (simp add: active_in_store_def example_state_def)

theorem send_error_keeps_user_message_witness:
  "error (fst (handleSend example_parse example_clock broken_response example_state))
     = Some (lit ''network error'')
   \<and> banner (fst (handleSend example_parse example_clock broken_response example_state))
     = Some (lit ''network error'')
   \<and> map content (messages (fst (handleSend example_parse example_clock broken_response example_state)))
     = [lit ''hello'', lit ''Hi'']
   \<and> map conv_id (conversations (fst (handleSend example_parse example_clock broken_response example_state)))
     = [lit ''1700000000001'']
   \<and> map content (conv_messages (hd (conversations (fst (handleSend example_parse example_clock
         broken_response example_state)))))
     = [lit ''hello'']"
proof -
  let ?final = "fst (handleSend example_parse example_clock broken_response example_state)"
  let ?cx = "snd (handleSend_begin example_clock example_state)"
  let ?res = "broken_response (completion_request (modelSettings example_state) (currentMessages ?cx))"
  note th = send_error_keeps_user_message [where st = example_state and clock = example_clock
      and parse = example_parse and fetch = broken_response and cx = ?cx and res = ?res
      and e = "Error (lit ''network error'')" and final = ?final,
      OF example_nonblank example_guards(4) example_guards(1) example_guards(2)
        example_guards(3) refl refl broken_thrown refl example_active]
  from th have err: "error ?final = Some (lit ''network error'')"
    by (simp add: message_or_def)
  from th have ban: "banner ?final = Some (lit ''network error'')"
    by (simp add: message_or_def lit_def)
  from th have msgs: "map content (messages ?final) = [lit ''hello'', lit ''Hi'']"
    by (simp add: broken_deltas example_begin example_guards(5))
  from th have ids: "map conv_id (conversations ?final) = [lit ''1700000000001'']"
    by (simp add: example_begin)
  then obtain c where c: "conversations ?final = [c]" "conv_id c = lit ''1700000000001''"
    by (cases "conversations ?final") auto
  from th have "\<forall>c \<in> set (conversations ?final).
      conv_id c = conversationId ?cx \<longrightarrow> conv_messages c = messages example_state @ [userMessage ?cx]"
    by blast
  with c have "conv_messages c = messages example_state @ [userMessage ?cx]"
    by (simp add: example_begin)
  then have "map content (conv_messages (hd (conversations ?final))) = [lit ''hello'']"
    by (simp add: c(1) example_begin example_guards(5))
  with err ban msgs ids show ?thesis by blast
qed

text \<open>
  As stated, with the content accumulated so far preserved in the conversation, the
  claim fails: after the frame \<open>Hi\<close> the conversation holds \<open>hello\<close> and \<open>Hi\<close>, and
  after the failed read that follows it holds \<open>hello\<close> alone.
\<close>

theorem send_error_rolls_back_counterexample:
  "map (\<lambda>c. map content (conv_messages c))
     (conversations (snd (apply_delta example_clock (snd (handleSend_begin example_clock example_state))
        (lit ''Hi'') ([], fst (handleSend_begin example_clock example_state)))))
     = [[lit ''hello'', lit ''Hi'']]
   \<and> map (\<lambda>c. map content (conv_messages c))
       (conversations (fst (handleSend example_parse example_clock broken_response example_state)))
     = [[lit ''hello'']]"
  by (simp add: broken_run example_begin apply_delta_def handleSend_catch_def
        updateConversation_def Let_def example_guards(5))

section \<open>Selecting a conversation\<close>

lemma find_unknown: "i \<notin> conv_id ` set cs \<Longrightarrow> find (\<lambda>c. conv_id c = i) cs = None"
  by (induction cs) auto

text \<open>
  Claim C7, as amended. For an id that no conversation of the list has,
  \<open>selectConversation\<close> leaves the displayed messages and the list as they are; it
  makes the given id the current one and clears the error banner.
\<close>

theorem select_unknown_conversation:
  assumes "i \<notin> conv_id ` set (conversations st)"
  shows "selectConversation i st = st\<lparr>currentConversationId := Some i, error := None\<rparr>
         \<and> messages (selectConversation i st) = messages st
         \<and> conversations (selectConversation i st) = conversations st
         \<and> currentConversationId (selectConversation i st) = Some i"
  using find_unknown [OF assms] by (simp add: selectConversation_def)

theorem select_unknown_conversation_witness:
  "selectConversation (lit ''404'') two_state =
     two_state\<lparr>currentConversationId := Some (lit ''404''), error := None\<rparr>
   \<and> messages (selectConversation (lit ''404'') two_state) = messages two_state
   \<and> conversations (selectConversation (lit ''404'') two_state) = conversations two_state"
proof -
  have "lit ''404'' \<notin> conv_id ` set (conversations two_state)"
    by (simp add: two_state_def two_conversations_def lit_def)
  from select_unknown_conversation [OF this] show ?thesis by blast
qed

text \<open>As stated, with the current id unchanged, the claim fails: the id is set before
  the list is searched.\<close>

theorem select_unknown_conversation_counterexample:
  "lit ''404'' \<notin> set (map conv_id (conversations two_state))
   \<and> currentConversationId two_state = None
   \<and> currentConversationId (selectConversation (lit ''404'') two_state) = Some (lit ''404'')"
  by (simp add: selectConversation_def two_state_def two_conversations_def example_state_def lit_def)

section \<open>Grouping by day\<close>















section \<open>The order of the list\<close>







section \<open>The title of a conversation\<close>

lemma update_entries_titles:
  "map title (fst (update_entries clock i ms k cs)) =
     map (\<lambda>c. if conv_id c = i then update_title ms else title c) cs"
  by (induction cs arbitrary: k) (simp_all add: case_prod_beta Let_def)

lemma updateConversation_titles:
  "map title (conversations (updateConversation clock i ms st)) =
     map (\<lambda>c. if conv_id c = i then update_title ms else title c) (conversations st)"
  using update_entries_titles [of clock i ms "clock_reads st" "conversations st"]
  by (cases "update_entries clock i ms (clock_reads st) (conversations st)")
     (simp add: updateConversation_def)

lemma update_entries_after_rename:
  "update_entries clock i ms k
     (map (\<lambda>conv. if conv_id conv = i then conv\<lparr>title := newTitle\<rparr> else conv) cs) =
   update_entries clock i ms k cs"
  by (induction cs arbitrary: k) (simp_all add: case_prod_beta Let_def)

lemma update_title_cases:
  "update_title ms =
     (case find_user ms of
        None \<Rightarrow> default_title
      | Some m \<Rightarrow> if content m = [] then default_title else slice0 15 (content m))"
  by (simp add: update_title_def slice0_def split: option.splits)

text \<open>
  Claim C10, as amended. \<open>updateConversation\<close> gives every entry with the given id the
  title computed from the message list alone: the first 15 code units of the content of
  its first user message, or the default title when there is no user message or that
  content is empty; the stored title is not read. So a title set by
  \<open>renameConversation\<close> is lost at the next \<open>updateConversation\<close> of that
  conversation: updating after renaming gives the state that updating alone gives.
\<close>

theorem update_sets_title:
  "map title (conversations (updateConversation clock i ms st)) =
     map (\<lambda>c. if conv_id c = i then update_title ms else title c) (conversations st)
   \<and> update_title ms =
       (case find_user ms of
          None \<Rightarrow> default_title
        | Some m \<Rightarrow> if content m = [] then default_title else slice0 15 (content m))
   \<and> updateConversation clock i ms (renameConversation i newTitle st) =
       updateConversation clock i ms st"
proof -
  have "updateConversation clock i ms (renameConversation i newTitle st) =
          updateConversation clock i ms st"
    by (simp add: updateConversation_def renameConversation_def update_entries_after_rename)
  with updateConversation_titles [of clock i ms st] update_title_cases [of ms]
  show ?thesis by (intro conjI)
qed

theorem update_sets_title_witness:
  "map title (conversations (renameConversation (lit ''100'') (lit ''renamed'') two_state)) =
     [lit ''second'', lit ''renamed'']
   \<and> map title (conversations (updateConversation example_clock (lit ''100'') hello_messages
         (renameConversation (lit ''100'') (lit ''renamed'') two_state))) =
     [lit ''second'', lit ''hello'']"
proof -
  have renamed: "map title (conversations (renameConversation (lit ''100'') (lit ''renamed'') two_state)) =
     [lit ''second'', lit ''renamed'']"
    by (simp add: renameConversation_def two_state_def two_conversations_def example_state_def lit_def)
  have "update_title hello_messages = lit ''hello''"
    using update_sets_title [of example_clock "lit ''100''" hello_messages two_state "lit ''renamed''"]
    by (simp add: find_user_def hello_messages_def slice0_def lit_def)
  then have "map title (conversations (updateConversation example_clock (lit ''100'') hello_messages
         (renameConversation (lit ''100'') (lit ''renamed'') two_state))) =
     [lit ''second'', lit ''hello'']"
    using update_sets_title [of example_clock "lit ''100''" hello_messages two_state "lit ''renamed''"]
    by (simp add: two_state_def two_conversations_def example_state_def lit_def)
  with renamed show ?thesis by blast
qed

text \<open>
  As stated, with the default title only when there is no user message, the claim fails
  for a first user message without content: its first 15 code units are the empty
  string, and the title becomes the default title.
\<close>

theorem update_sets_title_counterexample:
  "find_user blank_messages = Some (hd blank_messages)
   \<and> slice0 15 (content (hd blank_messages)) = []
   \<and> map title (conversations (updateConversation example_clock (lit ''100'') blank_messages two_state))
       = [lit ''second'', default_title]
   \<and> default_title \<noteq> []"
  by (simp add: updateConversation_def two_state_def two_conversations_def example_state_def
        update_title_def find_user_def blank_messages_def slice0_def default_title_def lit_def)

end
